theory Spec2Isabelle
  imports Complex_Main "HOL-Library.AList" "HOL-Library.Log_Nat"
begin

section \<open>Data model of \<open>backend.py\<close>\<close>

text \<open>
  A row of a part table (one line of a CSV file, as \<open>_load_all_parts\<close> keeps it).
  \<^item> \<open>price\<close> is numeric in every row: the loader coerces the column with
    \<open>pd.to_numeric\<close> and drops the rows whose price is NaN.
  \<^item> \<open>socket\<close> is the cell of the \<open>socket\<close> column; \<open>None\<close> stands for an empty
    cell (NaN), which pandas never finds equal to anything, itself included.
  \<^item> \<open>feats\<close> holds the other cells that pass the selector's test
    \<open>val is not None and is_numeric_dtype(type(val)) and pd.notna(val)\<close>: the numeric,
    non-NaN cells, keyed by column name. Text cells (name, image, socket) and NaN
    cells fail that test and are represented by absence.
  The CPU and the Motherboard table carry the \<open>socket\<close> column, as the data model of the
  specification has it. A table without that column makes \<open>df['socket']\<close> raise
  \<open>KeyError\<close>, which no assembler catches; such a catalogue is outside this model.

  Amounts are Python floats, each a rational number. The tiered assembler below is
  written with the rounding of every \<open>+=\<close> and \<open>-=\<close> made explicit, because whether
  its cost stays within the budget depends on it. The scenario and the sampling
  assembler are written in exact arithmetic; what is proved of them does not depend
  on rounding: which rows a filter keeps at given amounts, socket equality, the
  branch that returns \<open>None\<close>, the code's own test \<open>current_total_cost <= budget\<close>,
  and runs on concrete inputs whose float arithmetic is exact.
\<close>

record part =
  name :: string
  price :: rat
  socket :: "string option"
  feats :: "(string \<times> rat) list"

text \<open>A DataFrame is the list of its rows, in row order.\<close>

type_synonym dataframe = "part list"

text \<open>\<open>normalization_ranges\<close>: the dict from \<open>f"{part_type}_{col}"\<close> to (min, max).\<close>

type_synonym ranges = "string \<Rightarrow> (rat \<times> rat) option"

text \<open>The feature vector that \<open>predict_build_score\<close> hands to a model.\<close>

record features =
  cpu_speed :: rat
  cpu_cores :: rat
  cpu_threads :: rat
  gpu_vram :: rat
  ram_size :: rat
  storage_space :: rat
  psu_power :: rat
  total_price :: rat

text \<open>
  A loaded model is a black box: \<open>predict\<close> yields a number, or raises (\<open>None\<close>).
\<close>

type_synonym ml_model = "features \<Rightarrow> rat option"

text \<open>
  The \<open>Backend\<close> object. \<open>PART_FILES\<close> keeps the keys of the dict of that name (the
  file names play no part after loading); \<open>parts_data\<close> is a dict in insertion
  order, so an association list.
\<close>

record backend =
  PART_FILES :: "string list"
  parts_data :: "(string \<times> dataframe) list"
  normalization_ranges :: ranges
  ml_models :: "string \<Rightarrow> ml_model option"

text \<open>\<open>df[col] == v\<close> on the socket column: an empty cell matches nothing.\<close>

fun socket_eq :: "string option \<Rightarrow> string option \<Rightarrow> bool" where
  "socket_eq (Some a) (Some b) = (a = b)"
| "socket_eq _ _ = False"

text \<open>\<open>df.sort_values(by='price')\<close>.\<close>

definition sort_by_price :: "dataframe \<Rightarrow> dataframe" where
  "sort_by_price df = sort_key price df"

section \<open>Float arithmetic\<close>

text \<open>
  A Python float is an IEEE 754 binary64 number: a sign, 53 significant bits and a
  power of two. Every arithmetic operation returns the exact result rounded to the
  nearest such number, a tie going to the even significand. \<open>float64\<close> is that
  rounding on the rationals, for results in the normal range (no overflow to
  infinity, no subnormal numbers), where all amounts of a catalogue lie.
\<close>

definition pow2 :: "int \<Rightarrow> rat" where
  "pow2 e = (if 0 \<le> e then 2 ^ nat e else 1 / 2 ^ nat (- e))"

text \<open>The exponent of a positive \<open>x\<close>: the \<open>e\<close> with \<open>2 ^ e \<le> x < 2 ^ (e + 1)\<close>.\<close>

definition floor_log2 :: "rat \<Rightarrow> int" where
  "floor_log2 x =
     (let (a, b) = quotient_of x; d = bitlen a - bitlen b
      in if pow2 d \<le> x then d else d - 1)"

definition round_half_even :: "rat \<Rightarrow> int" where
  "round_half_even x =
     (let f = \<lfloor>x\<rfloor>; r = x - of_int f
      in if r < 1 / 2 then f
         else if 1 / 2 < r then f + 1
         else if even f then f else f + 1)"

definition float64 :: "rat \<Rightarrow> rat" where
  "float64 x =
     (if x = 0 then 0
      else
        let e = floor_log2 \<bar>x\<bar>;
            ulp = pow2 (e - 52);
            m = round_half_even (\<bar>x\<bar> / ulp)
        in sgn x * of_int m * ulp)"

section \<open>The weighted selector: \<open>_select_best_part_by_score\<close>\<close>

text \<open>
  \<open>part.get(feature)\<close> followed by the numeric test: \<open>Some val\<close> when the cell is
  scored, \<open>None\<close> when the feature contributes nothing.
\<close>

definition numeric_get :: "part \<Rightarrow> string \<Rightarrow> rat option" where
  "numeric_get p feature =
     (if feature = ''price'' then Some (price p) else map_of (feats p) feature)"

text \<open>Lines 605 to 620: the value that is multiplied by the weight.\<close>

definition normalized_val :: "ranges \<Rightarrow> string \<Rightarrow> string \<Rightarrow> rat \<Rightarrow> rat" where
  "normalized_val nr part_type feature val =
     (case nr (part_type @ ''_'' @ feature) of
        Some (min_val, max_val) \<Rightarrow>
          if max_val - min_val > 0 then (val - min_val) / (max_val - min_val)
          else 1 / 2
      | None \<Rightarrow> val)"

text \<open>The inner loop over \<open>part_weights.items()\<close>, with the running \<open>score\<close>.\<close>

fun score_loop :: "ranges \<Rightarrow> string \<Rightarrow> part \<Rightarrow> rat \<Rightarrow> (string \<times> rat) list \<Rightarrow> rat" where
  "score_loop nr part_type p score [] = score"
| "score_loop nr part_type p score ((feature, weight) # ws) =
     score_loop nr part_type p
       (case numeric_get p feature of
          None \<Rightarrow> score
        | Some val \<Rightarrow> score + normalized_val nr part_type feature val * weight)
       ws"

definition part_score :: "ranges \<Rightarrow> string \<Rightarrow> (string \<times> rat) list \<Rightarrow> part \<Rightarrow> rat" where
  "part_score nr part_type part_weights p = score_loop nr part_type p 0 part_weights"

text \<open>\<open>Series.idxmax\<close>: the position of the first maximal entry.\<close>

fun idxmax :: "rat list \<Rightarrow> nat" where
  "idxmax [] = 0"
| "idxmax (x # xs) = (if list_all (\<lambda>y. y \<le> x) xs then 0 else Suc (idxmax xs))"

text \<open>
  The selector writes the scores into a new column \<open>score\<close> of the candidate frame,
  so the dict it returns carries that key.
\<close>

definition with_score :: "part \<Rightarrow> rat \<Rightarrow> part" where
  "with_score p s = p\<lparr>feats := AList.update ''score'' s (feats p)\<rparr>"

definition select_best_part_by_score ::
    "dataframe \<Rightarrow> (string \<times> rat) list \<Rightarrow> ranges \<Rightarrow> string \<Rightarrow> part option" where
  "select_best_part_by_score parts_df part_weights nr part_type =
     (if parts_df = [] then None
      else
        let scores = map (part_score nr part_type part_weights) parts_df in
        if scores \<noteq> [] then
          Some (with_score (parts_df ! idxmax scores) (scores ! idxmax scores))
        else
          (case sort_by_price parts_df of [] \<Rightarrow> None | p # _ \<Rightarrow> Some p))"

section \<open>The tiered assembler: \<open>recommend_builds_rule_based\<close>\<close>

text \<open>
  One entry of the returned list. The \<open>type\<close> labels are kept without the emoji
  that precede them in the source.
\<close>

record build =
  parts :: "(string \<times> part) list"
  cost :: rat
  remaining :: rat
  build_type :: string

definition build_types :: "string list" where
  "build_types = [''Budget Build'', ''Balanced Build'', ''Performance Build'']"

text \<open>Lines 166 to 175: the row picked by strategy \<open>i\<close> from a non-empty frame.\<close>

definition strategy_pick :: "nat \<Rightarrow> dataframe \<Rightarrow> part" where
  "strategy_pick i affordable_parts =
     (if i = 0 then hd affordable_parts
      else if i = 1 then
        (if length affordable_parts > 1
         then affordable_parts ! (length affordable_parts div 2)
         else hd affordable_parts)
      else last affordable_parts)"

text \<open>
  The loop over \<open>self.parts_data.items()\<close> of one strategy. \<open>None\<close> is the
  \<open>break\<close> with \<open>all_parts_found = False\<close>. The two running amounts are floats:
  \<open>current_total_cost += price\<close> and \<open>temp_budget -= price\<close> each round their
  result. \<open>rnd\<close> is that rounding; the source is the loop with \<open>rnd = float64\<close>.
\<close>

fun tier_loop ::
    "(rat \<Rightarrow> rat) \<Rightarrow> nat \<Rightarrow> (string \<times> dataframe) list \<Rightarrow> (string \<times> part) list
     \<Rightarrow> rat \<Rightarrow> rat \<Rightarrow> ((string \<times> part) list \<times> rat) option" where
  "tier_loop rnd i [] current_build current_total_cost temp_budget =
     Some (current_build, current_total_cost)"
| "tier_loop rnd i ((part_type, df) # rest) current_build current_total_cost temp_budget =
     (let affordable_parts = filter (\<lambda>p. price p \<le> temp_budget) df in
      if affordable_parts = [] then None
      else
        let selected_part = strategy_pick i affordable_parts in
        tier_loop rnd i rest
          (AList.update part_type selected_part current_build)
          (rnd (current_total_cost + price selected_part))
          (rnd (temp_budget - price selected_part)))"

definition tier_build :: "(rat \<Rightarrow> rat) \<Rightarrow> backend \<Rightarrow> rat \<Rightarrow> nat \<Rightarrow> build list" where
  "tier_build rnd self budget i =
     (case tier_loop rnd i (parts_data self) [] 0 budget of
        None \<Rightarrow> []
      | Some (current_build, current_total_cost) \<Rightarrow>
          [\<lparr>parts = current_build, cost = current_total_cost,
            remaining = rnd (budget - current_total_cost), build_type = build_types ! i\<rparr>])"

definition recommend_builds_rule_based ::
    "(rat \<Rightarrow> rat) \<Rightarrow> backend \<Rightarrow> rat \<Rightarrow> build list" where
  "recommend_builds_rule_based rnd self budget =
     (if \<not> list_all (\<lambda>part_type. part_type \<in> fst ` set (parts_data self)) (PART_FILES self)
      then []
      else tier_build rnd self budget 0 @ tier_build rnd self budget 1
             @ tier_build rnd self budget 2)"

section \<open>The scenario assembler: \<open>generate_smart_recommendation_rule_based\<close>\<close>

text \<open>\<open>d.get(k, default)\<close> on a dict kept as an association list.\<close>

definition dict_get :: "('k \<times> 'v) list \<Rightarrow> 'k \<Rightarrow> 'v \<Rightarrow> 'v" where
  "dict_get d k dflt = (case map_of d k of None \<Rightarrow> dflt | Some v \<Rightarrow> v)"

type_synonym weight_table = "(string \<times> (string \<times> rat) list) list"

definition general_use_weights :: weight_table where
  "general_use_weights =
     [(''CPU'', [(''speed'', 2/10), (''coreCount'', 1/10), (''price'', -(7/10))]),
      (''GPU'', [(''price'', -1)]),
      (''RAM'', [(''size'', 3/10), (''price'', -(7/10))]),
      (''Storage'', [(''space'', 2/10), (''price'', -(8/10))]),
      (''PSU'', [(''power'', 1/10), (''price'', -(9/10))]),
      (''Motherboard'', [(''price'', -1)]),
      (''Case'', [(''price'', -1)]),
      (''Cooler'', [(''price'', -1)])]"

definition feature_weights :: "(string \<times> weight_table) list" where
  "feature_weights =
     [(''Gaming'',
        [(''CPU'', [(''speed'', 3/10), (''coreCount'', 2/10), (''power'', 1/10), (''price'', -(4/10))]),
         (''GPU'', [(''VRAM'', 4/10), (''power'', 2/10), (''price'', -(4/10))]),
         (''RAM'', [(''size'', 3/10), (''price'', -(7/10))]),
         (''Storage'', [(''space'', 1/10), (''price'', -(9/10))]),
         (''PSU'', [(''power'', 3/10), (''price'', -(7/10))]),
         (''Motherboard'', [(''price'', -1)]),
         (''Case'', [(''price'', -1)]),
         (''Cooler'', [(''price'', -1)])]),
      (''Workstation'',
        [(''CPU'', [(''coreCount'', 4/10), (''threadCount'', 3/10), (''speed'', 2/10),
                    (''power'', 1/10), (''price'', -(5/10))]),
         (''GPU'', [(''VRAM'', 2/10), (''price'', -(8/10))]),
         (''RAM'', [(''size'', 6/10), (''price'', -(4/10))]),
         (''Storage'', [(''space'', 5/10), (''price'', -(5/10))]),
         (''PSU'', [(''power'', 2/10), (''price'', -(8/10))]),
         (''Motherboard'', [(''price'', -1)]),
         (''Case'', [(''price'', -1)]),
         (''Cooler'', [(''price'', -1)])]),
      (''Content Creation'',
        [(''CPU'', [(''coreCount'', 35/100), (''threadCount'', 35/100), (''speed'', 1/10),
                    (''price'', -(4/10))]),
         (''GPU'', [(''VRAM'', 3/10), (''price'', -(7/10))]),
         (''RAM'', [(''size'', 5/10), (''price'', -(5/10))]),
         (''Storage'', [(''space'', 4/10), (''price'', -(6/10))]),
         (''PSU'', [(''power'', 2/10), (''price'', -(8/10))]),
         (''Motherboard'', [(''price'', -1)]),
         (''Case'', [(''price'', -1)]),
         (''Cooler'', [(''price'', -1)])]),
      (''Home Office'',
        [(''CPU'', [(''speed'', 2/10), (''coreCount'', 1/10), (''price'', -(7/10))]),
         (''GPU'', [(''price'', -1)]),
         (''RAM'', [(''size'', 3/10), (''price'', -(7/10))]),
         (''Storage'', [(''space'', 2/10), (''price'', -(8/10))]),
         (''PSU'', [(''power'', 1/10), (''price'', -(9/10))]),
         (''Motherboard'', [(''price'', -1)]),
         (''Case'', [(''price'', -1)]),
         (''Cooler'', [(''price'', -1)])]),
      (''General Use'', general_use_weights)]"

definition general_use_allocations :: "(string \<times> rat) list" where
  "general_use_allocations =
     [(''GPU'', 1/10), (''RAM'', 25/100), (''Storage'', 25/100), (''PSU'', 15/100),
      (''Case'', 1/10), (''Cooler'', 5/100)]"

definition budget_allocation_priority :: "(string \<times> (string \<times> rat) list) list" where
  "budget_allocation_priority =
     [(''Gaming'',
        [(''GPU'', 5/10), (''RAM'', 2/10), (''Storage'', 15/100), (''PSU'', 1/10),
         (''Case'', 5/100), (''Cooler'', 0)]),
      (''Workstation'',
        [(''GPU'', 15/100), (''RAM'', 3/10), (''Storage'', 3/10), (''PSU'', 15/100),
         (''Case'', 5/100), (''Cooler'', 5/100)]),
      (''Content Creation'',
        [(''GPU'', 25/100), (''RAM'', 25/100), (''Storage'', 25/100), (''PSU'', 15/100),
         (''Case'', 5/100), (''Cooler'', 5/100)]),
      (''Home Office'',
        [(''GPU'', 5/100), (''RAM'', 2/10), (''Storage'', 2/10), (''PSU'', 1/10),
         (''Case'', 1/10), (''Cooler'', 5/100)]),
      (''General Use'', general_use_allocations)]"

definition part_types_order :: "string list" where
  "part_types_order = [''GPU'', ''RAM'', ''Storage'', ''PSU'', ''Case'', ''Cooler'']"

definition required_parts :: "string list" where
  "required_parts = [''CPU'', ''Motherboard'', ''RAM'', ''GPU'', ''Storage'', ''PSU'']"

text \<open>Lines 273 to 282: the CPU candidate frame.\<close>

definition cpu_candidates :: "dataframe \<Rightarrow> rat \<Rightarrow> dataframe" where
  "cpu_candidates cpu_df budget =
     (let affordable_cpus = filter (\<lambda>p. price p \<le> budget * (25/100)) cpu_df in
      if affordable_cpus = [] \<and> budget > 0 then
        (let affordable_cpus = filter (\<lambda>p. price p \<le> budget * (4/10)) cpu_df in
         if affordable_cpus = [] \<and> cpu_df \<noteq> [] then take 1 (sort_by_price cpu_df)
         else affordable_cpus)
      else affordable_cpus)"

text \<open>
  Lines 295 to 316: the motherboard candidate frame; \<open>None\<close> is the \<open>return None\<close>
  of line 316.
\<close>

definition motherboard_candidates ::
    "dataframe \<Rightarrow> string option \<Rightarrow> rat \<Rightarrow> dataframe option" where
  "motherboard_candidates motherboard_df cpu_socket remaining_budget =
     (let compatible_motherboards =
            filter (\<lambda>m. socket_eq (socket m) cpu_socket
                         \<and> price m \<le> remaining_budget * (25/100)) motherboard_df in
      if compatible_motherboards = [] \<and> remaining_budget > 0 then
        (let compatible_motherboards =
               filter (\<lambda>m. socket_eq (socket m) cpu_socket
                            \<and> price m \<le> remaining_budget * (4/10)) motherboard_df in
         if compatible_motherboards = [] \<and> motherboard_df \<noteq> [] then
           (let compatible_motherboards =
                  take 1 (sort_by_price
                    (filter (\<lambda>m. socket_eq (socket m) cpu_socket) motherboard_df)) in
            if compatible_motherboards \<noteq> [] then Some compatible_motherboards else None)
         else Some compatible_motherboards)
      else Some compatible_motherboards)"

text \<open>
  Lines 350 to 365 for one remaining category: the frame \<open>affordable_parts\<close> after
  the retry, and the value that the last resort stores in \<open>selected_part\<close>
  (\<open>df.iloc[0]\<close>), if it ran. \<open>None\<close> is the \<open>return None\<close> of line 365.
\<close>

definition affordable_or_cheapest ::
    "dataframe \<Rightarrow> rat \<Rightarrow> rat \<Rightarrow> (dataframe \<times> part option) option" where
  "affordable_or_cheapest df allocated_part_budget remaining_budget =
     (let affordable_parts = filter (\<lambda>p. price p \<le> allocated_part_budget) df in
      if affordable_parts = [] then
        (let affordable_parts = filter (\<lambda>p. price p \<le> remaining_budget) df in
         if affordable_parts = [] then
           (case df of [] \<Rightarrow> None | p # _ \<Rightarrow> Some (affordable_parts, Some p))
         else Some (affordable_parts, None))
      else Some (affordable_parts, None))"

text \<open>
  The loop over \<open>part_types_order\<close> (lines 345 to 380). The state is
  \<open>recommended_build\<close>, \<open>current_cost\<close> and \<open>remaining_budget\<close>. After
  \<open>affordable_or_cheapest\<close> the source tests \<open>affordable_parts\<close> again (line 367)
  and returns \<open>None\<close> when it is empty (line 378), whatever \<open>selected_part\<close> holds.
\<close>

fun remaining_parts_loop ::
    "backend \<Rightarrow> weight_table \<Rightarrow> (string \<times> rat) list \<Rightarrow> rat \<Rightarrow> string list
     \<Rightarrow> (string \<times> part) list \<Rightarrow> rat \<Rightarrow> rat \<Rightarrow> (string \<times> part) list option" where
  "remaining_parts_loop self weights current_allocations budget []
       recommended_build current_cost remaining_budget = Some recommended_build"
| "remaining_parts_loop self weights current_allocations budget (part_type # rest)
       recommended_build current_cost remaining_budget =
     (case map_of (parts_data self) part_type of
        None \<Rightarrow> None
      | Some df \<Rightarrow>
          (case affordable_or_cheapest df
                  (remaining_budget * dict_get current_allocations part_type (1/10))
                  remaining_budget of
             None \<Rightarrow> None
           | Some (affordable_parts, cheapest) \<Rightarrow>
               if affordable_parts \<noteq> [] then
                 (case select_best_part_by_score affordable_parts
                         (dict_get weights part_type []) (normalization_ranges self) part_type of
                    None \<Rightarrow> None
                  | Some selected_part \<Rightarrow>
                      remaining_parts_loop self weights current_allocations budget rest
                        (AList.update part_type selected_part recommended_build)
                        (current_cost + price selected_part)
                        (budget - (current_cost + price selected_part)))
               else None))"

definition generate_smart_recommendation_rule_based ::
    "backend \<Rightarrow> string \<Rightarrow> rat \<Rightarrow> (string \<times> part) list option" where
  "generate_smart_recommendation_rule_based self scenario budget =
     (let weights = dict_get feature_weights scenario general_use_weights in
      case map_of (parts_data self) ''CPU'' of
        None \<Rightarrow> None
      | Some cpu_df \<Rightarrow>
      (case map_of (parts_data self) ''Motherboard'' of
        None \<Rightarrow> None
      | Some motherboard_df \<Rightarrow>
      (let affordable_cpus = cpu_candidates cpu_df budget in
       if affordable_cpus = [] then None
       else
       (case select_best_part_by_score affordable_cpus (dict_get weights ''CPU'' [])
               (normalization_ranges self) ''CPU'' of
          None \<Rightarrow> None
        | Some selected_cpu \<Rightarrow>
        (case motherboard_candidates motherboard_df (socket selected_cpu)
                (budget - price selected_cpu) of
           None \<Rightarrow> None
         | Some compatible_motherboards \<Rightarrow>
           if compatible_motherboards = [] then None
           else
           (case select_best_part_by_score compatible_motherboards
                   (dict_get weights ''Motherboard'' []) (normalization_ranges self)
                   ''Motherboard'' of
              None \<Rightarrow> None
            | Some selected_motherboard \<Rightarrow>
              (let current_cost = price selected_cpu + price selected_motherboard in
               case remaining_parts_loop self weights
                      (dict_get budget_allocation_priority scenario general_use_allocations)
                      budget part_types_order
                      (AList.update ''Motherboard'' selected_motherboard
                         (AList.update ''CPU'' selected_cpu []))
                      current_cost (budget - current_cost) of
                 None \<Rightarrow> None
               | Some recommended_build \<Rightarrow>
                   if list_all (\<lambda>k. k \<in> fst ` set recommended_build) required_parts
                   then Some recommended_build else None)))))))"

text \<open>The cost of a build as the callers compute it: the sum of the parts' prices.\<close>

definition build_cost :: "(string \<times> part) list \<Rightarrow> rat" where
  "build_cost b = sum_list (map (\<lambda>kv. price (snd kv)) b)"

section \<open>The sampling assembler: \<open>generate_ml_based_recommendations\<close>\<close>

text \<open>
  \<open>df.sample(1).iloc[0]\<close> draws one row at random. The randomness is an oracle: a
  number per draw, reduced modulo the frame's length. Sampling an empty frame raises
  \<open>ValueError\<close> (\<open>None\<close>).
\<close>

definition sample1 :: "dataframe \<Rightarrow> nat \<Rightarrow> part option" where
  "sample1 df r = (if df = [] then None else Some (df ! (r mod length df)))"

text \<open>One build of the result list: the sampled parts and the key \<open>_ml_score\<close>.\<close>

record ml_build =
  sampled_parts :: "(string \<times> part) list"
  ml_score :: rat

definition remaining_part_types :: "string list" where
  "remaining_part_types = [''GPU'', ''RAM'', ''Storage'', ''PSU'', ''Case'', ''Cooler'']"

text \<open>
  The loop over \<open>remaining_part_types\<close> (lines 468 to 483); \<open>draw k\<close> is the oracle's
  number for the \<open>k\<close>-th draw of the trial. \<open>None\<close> is a raised \<open>ValueError\<close>.
\<close>

fun sample_remaining ::
    "backend \<Rightarrow> (nat \<Rightarrow> nat) \<Rightarrow> nat \<Rightarrow> string list \<Rightarrow> (string \<times> part) list \<Rightarrow> rat \<Rightarrow> rat
     \<Rightarrow> ((string \<times> part) list \<times> rat) option" where
  "sample_remaining self draw k [] current_sampled_build current_total_cost temp_budget =
     Some (current_sampled_build, current_total_cost)"
| "sample_remaining self draw k (part_type # rest) current_sampled_build current_total_cost
       temp_budget =
     (case map_of (parts_data self) part_type of
        None \<Rightarrow> None
      | Some df \<Rightarrow>
          if df = [] then None
          else
            let affordable_parts = filter (\<lambda>p. price p \<le> temp_budget) df in
            (case (if affordable_parts = [] then (case df of [] \<Rightarrow> None | p # _ \<Rightarrow> Some p)
                   else sample1 affordable_parts (draw k)) of
               None \<Rightarrow> None
             | Some selected_part \<Rightarrow>
                 sample_remaining self draw (Suc k) rest
                   (AList.update part_type selected_part current_sampled_build)
                   (current_total_cost + price selected_part)
                   (temp_budget - price selected_part)))"

text \<open>
  The body of the \<open>try\<close> block of one trial (lines 423 to 483): the sampled build and
  its running cost, or \<open>None\<close> when a \<open>ValueError\<close> was raised and the trial skipped.
  The test of line 445 (\<open>selected_cpu_socket is None\<close>) is for a table without a
  socket column; an empty socket cell goes on and matches no motherboard.
\<close>

definition sample_build ::
    "backend \<Rightarrow> rat \<Rightarrow> (nat \<Rightarrow> nat) \<Rightarrow> ((string \<times> part) list \<times> rat) option" where
  "sample_build self budget draw =
     (case map_of (parts_data self) ''CPU'' of
        None \<Rightarrow> None
      | Some cpu_df \<Rightarrow>
        if cpu_df = [] then None
        else
        (let affordable_cpus = filter (\<lambda>p. price p \<le> budget * (4/10)) cpu_df;
             affordable_cpus = (if affordable_cpus = [] then take 1 (sort_by_price cpu_df)
                                else affordable_cpus) in
         case sample1 affordable_cpus (draw 0) of
           None \<Rightarrow> None
         | Some selected_cpu_part \<Rightarrow>
           (let temp_budget = budget - price selected_cpu_part;
                selected_cpu_socket = socket selected_cpu_part in
            case map_of (parts_data self) ''Motherboard'' of
              None \<Rightarrow> None
            | Some motherboard_df \<Rightarrow>
              if motherboard_df = [] then None
              else
              (let compatible_motherboards =
                     filter (\<lambda>m. socket_eq (socket m) selected_cpu_socket
                                  \<and> price m \<le> temp_budget * (5/10)) motherboard_df;
                   compatible_motherboards =
                     (if compatible_motherboards = [] then
                        take 1 (sort_by_price
                          (filter (\<lambda>m. socket_eq (socket m) selected_cpu_socket) motherboard_df))
                      else compatible_motherboards) in
               case sample1 compatible_motherboards (draw 1) of
                 None \<Rightarrow> None
               | Some selected_mb_part \<Rightarrow>
                   sample_remaining self draw 2 remaining_part_types
                     (AList.update ''Motherboard'' selected_mb_part
                        (AList.update ''CPU'' selected_cpu_part []))
                     (price selected_cpu_part + price selected_mb_part)
                     (temp_budget - price selected_mb_part)))))"

text \<open>
  \<open>build_dict.get(part_type, {}).get(column, 0)\<close>. A cell that is NaN in the table
  reaches the model as NaN in the source; here it reads as the default 0, like a
  missing column. The model is a black box, and nothing below depends on the vector
  it is given.
\<close>

definition build_feature :: "(string \<times> part) list \<Rightarrow> string \<Rightarrow> string \<Rightarrow> rat" where
  "build_feature build_dict part_type column =
     (case map_of build_dict part_type of
        None \<Rightarrow> 0
      | Some p \<Rightarrow> (case numeric_get p column of None \<Rightarrow> 0 | Some v \<Rightarrow> v))"

definition build_features :: "(string \<times> part) list \<Rightarrow> features" where
  "build_features build_dict =
     \<lparr>cpu_speed = build_feature build_dict ''CPU'' ''speed'',
      cpu_cores = build_feature build_dict ''CPU'' ''coreCount'',
      cpu_threads = build_feature build_dict ''CPU'' ''threadCount'',
      gpu_vram = build_feature build_dict ''GPU'' ''VRAM'',
      ram_size = build_feature build_dict ''RAM'' ''size'',
      storage_space = build_feature build_dict ''Storage'' ''space'',
      psu_power = build_feature build_dict ''PSU'' ''power'',
      total_price = sum_list (map (\<lambda>kv. price (snd kv)) build_dict)\<rparr>"

text \<open>\<open>predict_build_score\<close>; \<open>None\<close> when no model is loaded or the model raises.\<close>

definition predict_build_score :: "backend \<Rightarrow> (string \<times> part) list \<Rightarrow> string \<Rightarrow> rat option" where
  "predict_build_score self build_dict scenario =
     (case ml_models self scenario of
        None \<Rightarrow> None
      | Some model \<Rightarrow>
          (case model (build_features build_dict) of
             None \<Rightarrow> None
           | Some prediction \<Rightarrow>
               Some (if prediction < 0 then max 0 prediction else prediction)))"

text \<open>
  The loop over \<open>range(num_samples)\<close> with the list \<open>all_valid_ml_builds\<close>;
  \<open>rng i\<close> is the oracle of trial \<open>i\<close>.
\<close>

fun ml_loop ::
    "backend \<Rightarrow> rat \<Rightarrow> string \<Rightarrow> (nat \<Rightarrow> nat \<Rightarrow> nat) \<Rightarrow> nat list \<Rightarrow> ml_build list
     \<Rightarrow> ml_build list" where
  "ml_loop self budget scenario rng [] all_valid_ml_builds = all_valid_ml_builds"
| "ml_loop self budget scenario rng (i # rest) all_valid_ml_builds =
     ml_loop self budget scenario rng rest
       (case sample_build self budget (rng i) of
          None \<Rightarrow> all_valid_ml_builds
        | Some (current_sampled_build, current_total_cost) \<Rightarrow>
            if current_total_cost \<le> budget then
              (case predict_build_score self current_sampled_build scenario of
                 None \<Rightarrow> all_valid_ml_builds
               | Some predicted_score \<Rightarrow>
                   all_valid_ml_builds @
                     [\<lparr>sampled_parts = current_sampled_build, ml_score = predicted_score\<rparr>])
            else all_valid_ml_builds)"

text \<open>
  The slice \<open>xs[:n]\<close> for a Python integer \<open>n\<close>: a negative \<open>n\<close> counts from the end.
\<close>

definition slice_to :: "'a list \<Rightarrow> int \<Rightarrow> 'a list" where
  "slice_to xs n = (if 0 \<le> n then take (nat n) xs else take (length xs - nat (- n)) xs)"

text \<open>
  \<open>list.sort(key=..., reverse=True)\<close> is stable: equal scores keep their order, as
  with the insertion sort \<open>sort_key\<close> on the negated score.
\<close>

definition sort_by_score_desc :: "ml_build list \<Rightarrow> ml_build list" where
  "sort_by_score_desc bs = sort_key (\<lambda>b. - ml_score b) bs"

definition generate_ml_based_recommendations ::
    "backend \<Rightarrow> rat \<Rightarrow> string \<Rightarrow> int \<Rightarrow> int \<Rightarrow> (nat \<Rightarrow> nat \<Rightarrow> nat) \<Rightarrow> ml_build list" where
  "generate_ml_based_recommendations self budget scenario num_samples top_n rng =
     (if ml_models self scenario = None then []
      else
        slice_to
          (sort_by_score_desc (ml_loop self budget scenario rng [0..<nat num_samples] []))
          top_n)"

section \<open>Catalogue conditions and a sample catalogue\<close>

text \<open>
  The loader keeps any numeric price, whatever its sign (lines 67 to 69). The two
  conditions below restrict a whole catalogue.
\<close>

definition nonneg_prices :: "backend \<Rightarrow> bool" where
  "nonneg_prices self =
     list_all (\<lambda>kv. list_all (\<lambda>p. 0 \<le> price p) (snd kv)) (parts_data self)"

definition positive_prices :: "backend \<Rightarrow> bool" where
  "positive_prices self =
     list_all (\<lambda>kv. list_all (\<lambda>p. 0 < price p) (snd kv)) (parts_data self)"

text \<open>A small catalogue with every category, each table sorted by price.\<close>

definition demo_cpus :: dataframe where
  "demo_cpus =
     [\<lparr>name = ''cpu_slow'', price = 100, socket = Some ''AM4'',
       feats = [(''speed'', 3), (''coreCount'', 4), (''threadCount'', 8), (''power'', 65)]\<rparr>,
      \<lparr>name = ''cpu_fast'', price = 300, socket = Some ''LGA1700'',
       feats = [(''speed'', 5), (''coreCount'', 8), (''threadCount'', 16), (''power'', 125)]\<rparr>]"

definition demo_gpus :: dataframe where
  "demo_gpus =
     [\<lparr>name = ''gpu_small'', price = 150, socket = None,
       feats = [(''VRAM'', 4), (''power'', 100)]\<rparr>,
      \<lparr>name = ''gpu_big'', price = 600, socket = None,
       feats = [(''VRAM'', 12), (''power'', 300)]\<rparr>]"

definition demo_motherboards :: dataframe where
  "demo_motherboards =
     [\<lparr>name = ''mb_am4'', price = 80, socket = Some ''AM4'', feats = []\<rparr>,
      \<lparr>name = ''mb_lga'', price = 120, socket = Some ''LGA1700'', feats = []\<rparr>]"

definition demo_rams :: dataframe where
  "demo_rams =
     [\<lparr>name = ''ram_8'', price = 30, socket = None, feats = [(''size'', 8)]\<rparr>,
      \<lparr>name = ''ram_32'', price = 110, socket = None, feats = [(''size'', 32)]\<rparr>]"

definition demo_storages :: dataframe where
  "demo_storages =
     [\<lparr>name = ''ssd_500'', price = 40, socket = None, feats = [(''space'', 500)]\<rparr>,
      \<lparr>name = ''ssd_2000'', price = 150, socket = None, feats = [(''space'', 2000)]\<rparr>]"

definition demo_psus :: dataframe where
  "demo_psus =
     [\<lparr>name = ''psu_500'', price = 50, socket = None, feats = [(''power'', 500)]\<rparr>,
      \<lparr>name = ''psu_850'', price = 120, socket = None, feats = [(''power'', 850)]\<rparr>]"

definition demo_parts :: "(string \<times> dataframe) list" where
  "demo_parts =
     [(''CPU'', demo_cpus), (''GPU'', demo_gpus), (''Motherboard'', demo_motherboards),
      (''RAM'', demo_rams), (''Storage'', demo_storages), (''PSU'', demo_psus),
      (''Case'', [\<lparr>name = ''case_basic'', price = 40, socket = None, feats = []\<rparr>]),
      (''Cooler'', [\<lparr>name = ''cooler_basic'', price = 20, socket = None, feats = []\<rparr>])]"

text \<open>The ranges that \<open>_precompute_normalization_ranges\<close> finds on that catalogue.\<close>

definition demo_ranges :: "(string \<times> rat \<times> rat) list" where
  "demo_ranges =
     [(''CPU_price'', (100, 300)), (''CPU_speed'', (3, 5)), (''CPU_coreCount'', (4, 8)),
      (''CPU_threadCount'', (8, 16)), (''CPU_power'', (65, 125)),
      (''GPU_price'', (150, 600)), (''GPU_VRAM'', (4, 12)), (''GPU_power'', (100, 300)),
      (''Motherboard_price'', (80, 120)),
      (''RAM_price'', (30, 110)), (''RAM_size'', (8, 32)),
      (''Storage_price'', (40, 150)), (''Storage_space'', (500, 2000)),
      (''PSU_price'', (50, 120)), (''PSU_power'', (500, 850)),
      (''Case_price'', (40, 40)), (''Cooler_price'', (20, 20))]"

text \<open>A model that can predict below zero: the GPU memory minus five.\<close>

definition demo_model :: ml_model where
  "demo_model f = Some (gpu_vram f - 5)"

definition demo_backend :: backend where
  "demo_backend =
     \<lparr>PART_FILES = [''CPU'', ''GPU'', ''Motherboard'', ''RAM'', ''Storage'', ''PSU'', ''Case'',
                     ''Cooler''],
      parts_data = demo_parts,
      normalization_ranges = map_of demo_ranges,
      ml_models = (\<lambda>s. if s = ''Gaming'' then Some demo_model else None)\<rparr>"

definition demo_rng :: "nat \<Rightarrow> nat \<Rightarrow> nat" where
  "demo_rng i k = i + k"

text \<open>
  A catalogue with one row per category. The CSV file gives the prices 134.3,
  574.9, 270.7, 36.1, 103.5, 57.9, 128.4 and 22.2, which add up to 1328; a row holds
  the float nearest to its price, written here as the rational number it is.
\<close>

definition rounding_parts :: "(string \<times> dataframe) list" where
  "rounding_parts =
     [(''CPU'', [\<lparr>name = ''cpu'', price = 2362630585765069 / 17592186044416,
                  socket = Some ''AM4'', feats = []\<rparr>]),
      (''GPU'', [\<lparr>name = ''gpu'', price = 5056873878467379 / 8796093022208,
                  socket = None, feats = []\<rparr>]),
      (''Motherboard'', [\<lparr>name = ''mb'', price = 4762204762223411 / 17592186044416,
                          socket = Some ''AM4'', feats = []\<rparr>]),
      (''RAM'', [\<lparr>name = ''ram'', price = 5080623329627341 / 140737488355328,
                  socket = None, feats = []\<rparr>]),
      (''Storage'', [\<lparr>name = ''ssd'', price = 207 / 2, socket = None, feats = []\<rparr>]),
      (''PSU'', [\<lparr>name = ''psu'', price = 8148700575773491 / 140737488355328,
                  socket = None, feats = []\<rparr>]),
      (''Case'', [\<lparr>name = ''case'', price = 4517673376206029 / 35184372088832,
                   socket = None, feats = []\<rparr>]),
      (''Cooler'', [\<lparr>name = ''cooler'', price = 6248744482976563 / 281474976710656,
                     socket = None, feats = []\<rparr>])]"

definition rounding_backend :: backend where
  "rounding_backend =
     demo_backend
       \<lparr>parts_data := rounding_parts,
        normalization_ranges :=
          map_of (map (\<lambda>kv. (fst kv @ ''_price'', (price (hd (snd kv)), price (hd (snd kv)))))
                    rounding_parts)\<rparr>"

text \<open>
  A catalogue with one row per category in which the rows after the motherboard
  carry negative prices (credits).
\<close>

definition credit_cpus :: dataframe where
  "credit_cpus = [\<lparr>name = ''cpu'', price = 50, socket = Some ''AM4'', feats = []\<rparr>]"

definition credit_motherboards :: dataframe where
  "credit_motherboards = [\<lparr>name = ''mb'', price = 100, socket = Some ''AM4'', feats = []\<rparr>]"

definition credit_parts :: "(string \<times> dataframe) list" where
  "credit_parts =
     [(''CPU'', credit_cpus),
      (''GPU'', [\<lparr>name = ''gpu'', price = - 30, socket = None, feats = []\<rparr>]),
      (''Motherboard'', credit_motherboards),
      (''RAM'', [\<lparr>name = ''ram'', price = - 5, socket = None, feats = []\<rparr>]),
      (''Storage'', [\<lparr>name = ''ssd'', price = - 3, socket = None, feats = []\<rparr>]),
      (''PSU'', [\<lparr>name = ''psu'', price = - 2, socket = None, feats = []\<rparr>]),
      (''Case'', [\<lparr>name = ''case'', price = - 1, socket = None, feats = []\<rparr>]),
      (''Cooler'', [\<lparr>name = ''cooler'', price = - 1, socket = None, feats = []\<rparr>])]"

definition credit_backend :: backend where
  "credit_backend =
     demo_backend
       \<lparr>parts_data := credit_parts,
        normalization_ranges :=
          map_of (map (\<lambda>kv. (fst kv @ ''_price'', (price (hd (snd kv)), price (hd (snd kv)))))
                    credit_parts)\<rparr>"

text \<open>A catalogue whose parts all cost nothing.\<close>

definition free_parts :: "(string \<times> dataframe) list" where
  "free_parts =
     map (\<lambda>part_type. (part_type,
            [\<lparr>name = ''free_'' @ part_type, price = 0, socket = Some ''AM4'', feats = []\<rparr>]))
       [''CPU'', ''GPU'', ''Motherboard'', ''RAM'', ''Storage'', ''PSU'', ''Case'', ''Cooler'']"

definition free_backend :: backend where
  "free_backend =
     demo_backend
       \<lparr>parts_data := free_parts,
        normalization_ranges :=
          map_of (map (\<lambda>part_type. (part_type @ ''_price'', (0, 0))) (map fst free_parts))\<rparr>"

section \<open>Properties of the weighted selector\<close>

lemma with_score_fields [simp]:
  "price (with_score p s) = price p"
  "socket (with_score p s) = socket p"
  "name (with_score p s) = name p"
  by (simp_all add: with_score_def)

lemma idxmax_less: "xs \<noteq> [] \<Longrightarrow> idxmax xs < length xs"
proof (induction xs)
  case Nil
  then show ?case by simp
next
  case (Cons x xs)
  show ?case
  proof (cases "xs = []")
    case True
    then show ?thesis by simp
  next
    case False
    with Cons.IH show ?thesis by simp
  qed
qed

lemma idxmax_constant: "list_all (\<lambda>y. y = c) xs \<Longrightarrow> idxmax xs = 0"
  by (cases xs) (auto simp: list_all_iff)

lemma select_best_None_iff:
  "select_best_part_by_score parts_df w nr pt = None \<longleftrightarrow> parts_df = []"
  by (simp add: select_best_part_by_score_def Let_def)

lemma select_best_Some_mem:
  assumes "select_best_part_by_score parts_df w nr pt = Some r"
  shows "\<exists>p \<in> set parts_df. \<exists>s. r = with_score p s"
proof -
  from assms have ne: "parts_df \<noteq> []"
    by (auto simp: select_best_part_by_score_def)
  let ?scores = "map (part_score nr pt w) parts_df"
  have "idxmax ?scores < length parts_df"
    using idxmax_less [of ?scores] ne by simp
  then have "parts_df ! idxmax ?scores \<in> set parts_df" by simp
  moreover from assms ne
  have "r = with_score (parts_df ! idxmax ?scores) (?scores ! idxmax ?scores)"
    by (simp add: select_best_part_by_score_def Let_def)
  ultimately show ?thesis by blast
qed

lemma score_loop_unscored:
  "list_all (\<lambda>fw. numeric_get p (fst fw) = None) w \<Longrightarrow> score_loop nr pt p s w = s"
  by (induction w arbitrary: s) auto

lemma score_loop_sum:
  "score_loop nr pt p s w =
     s + sum_list (map (\<lambda>fw. case numeric_get p (fst fw) of None \<Rightarrow> 0
                              | Some v \<Rightarrow> normalized_val nr pt (fst fw) v * snd fw) w)"
  by (induction w arbitrary: s) (auto split: option.splits)

lemma sorted_hd_least: "sorted (map f xs) \<Longrightarrow> q \<in> set xs \<Longrightarrow> f (hd xs) \<le> f q"
  by (cases xs) auto

text \<open>
  Claim C5. The selector returns \<open>None\<close> exactly for the empty candidate frame; for a
  non-empty frame it returns one of the candidates (with its score attached); and
  when no feature of the weight map is scored on any candidate of a frame sorted by
  price, it returns the first row, whose price is the lowest. The branch of the
  source that sorts by price is never taken (the list of scores has one entry per
  row); the first row wins because \<open>idxmax\<close> takes the first of equal scores.
\<close>

theorem select_best_some_iff_nonempty:
  "(select_best_part_by_score parts_df w nr pt = None \<longleftrightarrow> parts_df = []) \<and>
   (parts_df \<noteq> [] \<longrightarrow>
      (\<exists>p \<in> set parts_df. \<exists>s.
         select_best_part_by_score parts_df w nr pt = Some (with_score p s))) \<and>
   (parts_df \<noteq> [] \<and> sorted (map price parts_df) \<and>
    list_all (\<lambda>p. list_all (\<lambda>fw. numeric_get p (fst fw) = None) w) parts_df \<longrightarrow>
      select_best_part_by_score parts_df w nr pt = Some (with_score (hd parts_df) 0) \<and>
      list_all (\<lambda>q. price (hd parts_df) \<le> price q) parts_df)"
proof (intro conjI impI)
  show "(select_best_part_by_score parts_df w nr pt = None) = (parts_df = [])"
    by (rule select_best_None_iff)
next
  assume ne: "parts_df \<noteq> []"
  then obtain r where r: "select_best_part_by_score parts_df w nr pt = Some r"
    using select_best_None_iff [of parts_df w nr pt]
    by (cases "select_best_part_by_score parts_df w nr pt") auto
  from select_best_Some_mem [OF r] r
  show "\<exists>p\<in>set parts_df. \<exists>s.
          select_best_part_by_score parts_df w nr pt = Some (with_score p s)"
    by auto
next
  assume a: "parts_df \<noteq> [] \<and> sorted (map price parts_df) \<and>
    list_all (\<lambda>p. list_all (\<lambda>fw. numeric_get p (fst fw) = None) w) parts_df"
  let ?scores = "map (part_score nr pt w) parts_df"
  have "list_all (\<lambda>y. y = 0) ?scores"
    using a by (auto simp: list_all_iff part_score_def score_loop_unscored)
  then have i0: "idxmax ?scores = 0"
    by (rule idxmax_constant)
  have "parts_df ! 0 \<in> set parts_df" using a by simp
  then have s0: "?scores ! 0 = 0"
    using a by (simp add: list_all_iff part_score_def score_loop_unscored)
  show "select_best_part_by_score parts_df w nr pt = Some (with_score (hd parts_df) 0)"
    using a i0 s0 by (simp add: select_best_part_by_score_def Let_def hd_conv_nth)
next
  assume a: "parts_df \<noteq> [] \<and> sorted (map price parts_df) \<and>
    list_all (\<lambda>p. list_all (\<lambda>fw. numeric_get p (fst fw) = None) w) parts_df"
  then show "list_all (\<lambda>q. price (hd parts_df) \<le> price q) parts_df"
    by (auto simp: list_all_iff intro: sorted_hd_least)
qed

theorem select_best_some_iff_nonempty_witness:
  "demo_rams \<noteq> [] \<and> sorted (map price demo_rams) \<and>
   list_all (\<lambda>p. list_all (\<lambda>fw. numeric_get p (fst fw) = None) [(''speed'', 1)]) demo_rams \<and>
   select_best_part_by_score demo_rams [(''speed'', 1)] (map_of demo_ranges) ''RAM''
     = Some (with_score (hd demo_rams) 0) \<and>
   list_all (\<lambda>q. price (hd demo_rams) \<le> price q) demo_rams \<and>
   name (hd demo_rams) = ''ram_8''"
proof -
  have h: "demo_rams \<noteq> [] \<and> sorted (map price demo_rams) \<and>
     list_all (\<lambda>p. list_all (\<lambda>fw. numeric_get p (fst fw) = None) [(''speed'', 1)]) demo_rams"
    by (simp add: demo_rams_def numeric_get_def)
  have n: "name (hd demo_rams) = ''ram_8''"
    by (simp add: demo_rams_def)
  note t = select_best_some_iff_nonempty
         [of demo_rams "[(''speed'', 1)]" "map_of demo_ranges" "''RAM''",
          THEN conjunct2, THEN conjunct2, rule_format, OF h]
  from t h n show ?thesis by simp
qed

text \<open>
  Claim C8. For a feature whose key is in the range table, the value that the
  weight multiplies is the rescaled one: \<open>(value - min) / (max - min)\<close> when
  \<open>min < max\<close>, which lies in \<open>[0, 1]\<close> for a value within the range, and \<open>1/2\<close>
  when \<open>max = min\<close>. When every weighted feature has a recorded range, the score
  of a part is the sum of weight times rescaled value over the features that are
  scored on it: no raw value enters that sum.
\<close>

theorem selector_rescales_ranged_features:
  "(nr (pt @ ''_'' @ f) = Some (mn, mx) \<and> mn < mx \<longrightarrow>
      normalized_val nr pt f v = (v - mn) / (mx - mn) \<and>
      (mn \<le> v \<and> v \<le> mx \<longrightarrow>
         0 \<le> normalized_val nr pt f v \<and> normalized_val nr pt f v \<le> 1)) \<and>
   (nr (pt @ ''_'' @ f) = Some (mn, mx) \<and> mx = mn \<longrightarrow> normalized_val nr pt f v = 1 / 2) \<and>
   (list_all (\<lambda>fw. nr (pt @ ''_'' @ fst fw) \<noteq> None) w \<longrightarrow>
      part_score nr pt w p =
        sum_list (map (\<lambda>fw.
            case numeric_get p (fst fw) of
              None \<Rightarrow> 0
            | Some val \<Rightarrow>
                (case nr (pt @ ''_'' @ fst fw) of
                   None \<Rightarrow> 0
                 | Some (min_val, max_val) \<Rightarrow>
                     (if min_val < max_val
                      then (val - min_val) / (max_val - min_val) else 1 / 2) * snd fw)) w))"
proof (intro conjI impI)
  assume "nr (pt @ ''_'' @ f) = Some (mn, mx) \<and> mn < mx"
  then show "normalized_val nr pt f v = (v - mn) / (mx - mn)"
    by (simp add: normalized_val_def)
next
  assume a: "nr (pt @ ''_'' @ f) = Some (mn, mx) \<and> mn < mx" and b: "mn \<le> v \<and> v \<le> mx"
  from a have "normalized_val nr pt f v = (v - mn) / (mx - mn)"
    by (simp add: normalized_val_def)
  with a b show "0 \<le> normalized_val nr pt f v" by simp
next
  assume a: "nr (pt @ ''_'' @ f) = Some (mn, mx) \<and> mn < mx" and b: "mn \<le> v \<and> v \<le> mx"
  from a have "normalized_val nr pt f v = (v - mn) / (mx - mn)"
    by (simp add: normalized_val_def)
  with a b show "normalized_val nr pt f v \<le> 1" by (simp add: divide_le_eq)
next
  assume "nr (pt @ ''_'' @ f) = Some (mn, mx) \<and> mx = mn"
  then show "normalized_val nr pt f v = 1 / 2"
    by (simp add: normalized_val_def)
next
  assume r: "list_all (\<lambda>fw. nr (pt @ ''_'' @ fst fw) \<noteq> None) w"
  have "map (\<lambda>fw. case numeric_get p (fst fw) of None \<Rightarrow> 0
                    | Some v \<Rightarrow> normalized_val nr pt (fst fw) v * snd fw) w
        = map (\<lambda>fw.
            case numeric_get p (fst fw) of
              None \<Rightarrow> 0
            | Some val \<Rightarrow>
                (case nr (pt @ ''_'' @ fst fw) of
                   None \<Rightarrow> 0
                 | Some (min_val, max_val) \<Rightarrow>
                     (if min_val < max_val
                      then (val - min_val) / (max_val - min_val) else 1 / 2) * snd fw)) w"
  proof (rule map_cong [OF refl])
    fix fw assume "fw \<in> set w"
    with r have "nr (pt @ ''_'' @ fst fw) \<noteq> None" by (simp add: list_all_iff)
    then show "(case numeric_get p (fst fw) of None \<Rightarrow> 0
                    | Some v \<Rightarrow> normalized_val nr pt (fst fw) v * snd fw)
        = (case numeric_get p (fst fw) of
              None \<Rightarrow> 0
            | Some val \<Rightarrow>
                (case nr (pt @ ''_'' @ fst fw) of
                   None \<Rightarrow> 0
                 | Some (min_val, max_val) \<Rightarrow>
                     (if min_val < max_val
                      then (val - min_val) / (max_val - min_val) else 1 / 2) * snd fw))"
      by (auto simp: normalized_val_def split: option.splits)
  qed
  then show "part_score nr pt w p =
        sum_list (map (\<lambda>fw.
            case numeric_get p (fst fw) of
              None \<Rightarrow> 0
            | Some val \<Rightarrow>
                (case nr (pt @ ''_'' @ fst fw) of
                   None \<Rightarrow> 0
                 | Some (min_val, max_val) \<Rightarrow>
                     (if min_val < max_val
                      then (val - min_val) / (max_val - min_val) else 1 / 2) * snd fw)) w)"
    by (simp only: part_score_def score_loop_sum add_0)
qed

theorem selector_rescales_ranged_features_witness:
  "map_of demo_ranges (''CPU'' @ ''_'' @ ''speed'') = Some (3, 5) \<and> (3::rat) < 5 \<and>
   (3::rat) \<le> 4 \<and> (4::rat) \<le> 5 \<and>
   normalized_val (map_of demo_ranges) ''CPU'' ''speed'' 4 = (4 - 3) / (5 - 3) \<and>
   0 \<le> normalized_val (map_of demo_ranges) ''CPU'' ''speed'' 4 \<and>
   normalized_val (map_of demo_ranges) ''CPU'' ''speed'' 4 \<le> 1 \<and>
   map_of demo_ranges (''Case'' @ ''_'' @ ''price'') = Some (40, 40) \<and>
   normalized_val (map_of demo_ranges) ''Case'' ''price'' 40 = 1 / 2 \<and>
   list_all (\<lambda>fw. map_of demo_ranges (''CPU'' @ ''_'' @ fst fw) \<noteq> None)
     (dict_get (dict_get feature_weights ''Gaming'' general_use_weights) ''CPU'' []) \<and>
   part_score (map_of demo_ranges) ''CPU''
     (dict_get (dict_get feature_weights ''Gaming'' general_use_weights) ''CPU'' [])
     (demo_cpus ! 1) = 2 / 10"
proof -
  let ?w = "dict_get (dict_get feature_weights ''Gaming'' general_use_weights) ''CPU'' []"
  have r1: "map_of demo_ranges (''CPU'' @ ''_'' @ ''speed'') = Some (3, 5)"
    by (simp add: demo_ranges_def)
  have r2: "map_of demo_ranges (''Case'' @ ''_'' @ ''price'') = Some (40, 40)"
    by (simp add: demo_ranges_def)
  have r3: "list_all (\<lambda>fw. map_of demo_ranges (''CPU'' @ ''_'' @ fst fw) \<noteq> None) ?w"
    by code_simp
  from selector_rescales_ranged_features
         [of "map_of demo_ranges" "''CPU''" "''speed''" 3 5 4] r1
  have a: "normalized_val (map_of demo_ranges) ''CPU'' ''speed'' 4 = (4 - 3) / (5 - 3) \<and>
           0 \<le> normalized_val (map_of demo_ranges) ''CPU'' ''speed'' 4 \<and>
           normalized_val (map_of demo_ranges) ''CPU'' ''speed'' 4 \<le> 1"
    by simp
  from selector_rescales_ranged_features
         [of "map_of demo_ranges" "''Case''" "''price''" 40 40 40] r2
  have b: "normalized_val (map_of demo_ranges) ''Case'' ''price'' 40 = 1 / 2"
    by simp
  note t = selector_rescales_ranged_features
         [of "map_of demo_ranges" "''CPU''" "''speed''" 3 5 4 ?w "demo_cpus ! 1",
          THEN conjunct2, THEN conjunct2, rule_format, OF r3]
  have "sum_list (map (\<lambda>fw.
            case numeric_get (demo_cpus ! 1) (fst fw) of
              None \<Rightarrow> 0
            | Some val \<Rightarrow>
                (case map_of demo_ranges (''CPU'' @ ''_'' @ fst fw) of
                   None \<Rightarrow> 0
                 | Some (min_val, max_val) \<Rightarrow>
                     (if min_val < max_val
                      then (val - min_val) / (max_val - min_val) else 1 / 2) * snd fw)) ?w)
        = 2 / 10"
    by code_simp
  with t have c: "part_score (map_of demo_ranges) ''CPU'' ?w (demo_cpus ! 1) = 2 / 10"
    by simp
  from r1 r2 r3 a b c show ?thesis by simp
qed

section \<open>Properties of the tiered assembler\<close>

lemma strategy_pick_mem: "xs \<noteq> [] \<Longrightarrow> strategy_pick i xs \<in> set xs"
  by (auto simp: strategy_pick_def)

text \<open>
  In exact arithmetic (no rounding) a strategy that ends keeps its cost within the
  budget it started from: each selected price is at most the budget that is left.
\<close>

lemma tier_loop_exact_cost:
  "tier_loop (\<lambda>x. x) i pd cb c t = Some (b, c') \<Longrightarrow>
     (pd = [] \<longrightarrow> c' = c) \<and> (pd \<noteq> [] \<longrightarrow> c' - c \<le> t)"
proof (induction pd arbitrary: cb c t)
  case Nil
  then show ?case by simp
next
  case (Cons kv rest)
  obtain part_type df where kv: "kv = (part_type, df)" by (cases kv)
  let ?aff = "filter (\<lambda>p. price p \<le> t) df"
  let ?sel = "strategy_pick i ?aff"
  from Cons.prems kv have ne: "?aff \<noteq> []"
    by (auto simp: Let_def split: if_splits)
  with Cons.prems kv
  have rec: "tier_loop (\<lambda>x. x) i rest (AList.update part_type ?sel cb) (c + price ?sel)
               (t - price ?sel) = Some (b, c')"
    by (simp add: Let_def)
  have "?sel \<in> set ?aff" using ne by (rule strategy_pick_mem)
  then have le: "price ?sel \<le> t" by simp
  from Cons.IH [OF rec] le show ?case
    by (cases "rest = []") auto
qed

lemma tier_build_exact_mem:
  assumes "b \<in> set (tier_build (\<lambda>x. x) self budget i)"
  shows "\<exists>cb. tier_loop (\<lambda>x. x) i (parts_data self) [] 0 budget = Some (cb, cost b)
          \<and> remaining b = budget - cost b"
proof (cases "tier_loop (\<lambda>x. x) i (parts_data self) [] 0 budget")
  case None
  with assms show ?thesis by (simp add: tier_build_def)
next
  case (Some r)
  obtain cb c where "r = (cb, c)" by (cases r)
  with Some assms show ?thesis by (simp add: tier_build_def)
qed

lemma tiered_within_budget_in_exact_arithmetic:
  assumes "PART_FILES self \<noteq> []"
      and "b \<in> set (recommend_builds_rule_based (\<lambda>x. x) self budget)"
  shows "cost b \<le> budget \<and> remaining b = budget - cost b"
proof -
  from assms(2)
  have all: "list_all (\<lambda>part_type. part_type \<in> fst ` set (parts_data self)) (PART_FILES self)"
    by (auto simp: recommend_builds_rule_based_def split: if_splits)
  with assms(1) have ne: "parts_data self \<noteq> []"
    by (cases "PART_FILES self") auto
  from assms(2) all obtain i where "b \<in> set (tier_build (\<lambda>x. x) self budget i)"
    by (auto simp: recommend_builds_rule_based_def)
  from tier_build_exact_mem [OF this] obtain cb
    where tl: "tier_loop (\<lambda>x. x) i (parts_data self) [] 0 budget = Some (cb, cost b)"
      and r: "remaining b = budget - cost b" by blast
  from tier_loop_exact_cost [OF tl] ne have "cost b \<le> budget" by simp
  with r show ?thesis by simp
qed

subsection \<open>A run in float arithmetic\<close>

lemma strategy_pick_single: "strategy_pick i [p] = p"
  by (simp add: strategy_pick_def)

lemma tier_loop_single:
  "tier_loop rnd i ((k, [p]) # rest) cb c t =
     (if price p \<le> t
      then tier_loop rnd i rest (AList.update k p cb) (rnd (c + price p)) (rnd (t - price p))
      else None)"
  by (simp add: strategy_pick_single)

text \<open>
  The sixteen roundings of the run on \<open>rounding_parts\<close> with the budget 1328, the
  eight comparisons of its filters, and the rounding of \<open>budget - cost\<close>.
\<close>

lemma rounding_cost_1: "float64 (0 + 2362630585765069 / 17592186044416) = (2362630585765069 / 17592186044416 :: rat)"
  by code_simp

lemma rounding_left_1: "float64 (1328 - 2362630585765069 / 17592186044416) = (5249948120304845 / 4398046511104 :: rat)"
  by code_simp

lemma rounding_fits_1: "(2362630585765069 / 17592186044416 :: rat) \<le> 1328"
  by simp

lemma rounding_cost_2: "float64 (2362630585765069 / 17592186044416 + 5056873878467379 / 8796093022208) = (3119094585674957 / 4398046511104 :: rat)"
  by code_simp

lemma rounding_left_2: "float64 (5249948120304845 / 4398046511104 - 5056873878467379 / 8796093022208) = (5443022362142311 / 8796093022208 :: rat)"
  by code_simp

lemma rounding_fits_2: "(5056873878467379 / 8796093022208 :: rat) \<le> 5249948120304845 / 4398046511104"
  by simp

lemma rounding_cost_3: "float64 (3119094585674957 / 4398046511104 + 4762204762223411 / 17592186044416) = (2154822888115405 / 2199023255552 :: rat)"
  by code_simp

lemma rounding_left_3: "float64 (5443022362142311 / 8796093022208 - 4762204762223411 / 17592186044416) = (6123839962061211 / 17592186044416 :: rat)"
  by code_simp

lemma rounding_fits_3: "(4762204762223411 / 17592186044416 :: rat) \<le> 5443022362142311 / 8796093022208"
  by simp

lemma rounding_cost_4: "float64 (2154822888115405 / 2199023255552 + 5080623329627341 / 140737488355328) = (8936830510563329 / 8796093022208 :: rat)"
  by code_simp

lemma rounding_left_4: "float64 (6123839962061211 / 17592186044416 - 5080623329627341 / 140737488355328) = (5488762045857793 / 17592186044416 :: rat)"
  by code_simp

lemma rounding_fits_4: "(5080623329627341 / 140737488355328 :: rat) \<le> 6123839962061211 / 17592186044416"
  by simp

lemma rounding_cost_5: "float64 (8936830510563329 / 8796093022208 + 207 / 2) = (2239 / 2 :: rat)"
  by code_simp

lemma rounding_left_5: "float64 (5488762045857793 / 17592186044416 - 207 / 2) = (3667970790260737 / 17592186044416 :: rat)"
  by code_simp

lemma rounding_fits_5: "(207 / 2 :: rat) \<le> 5488762045857793 / 17592186044416"
  by simp

lemma rounding_cost_6: "float64 (2239 / 2 + 8148700575773491 / 140737488355328) = (2589129981086925 / 2199023255552 :: rat)"
  by code_simp

lemma rounding_left_6: "float64 (3667970790260737 / 17592186044416 - 8148700575773491 / 140737488355328) = (5298766436578101 / 35184372088832 :: rat)"
  by code_simp

lemma rounding_fits_6: "(8148700575773491 / 140737488355328 :: rat) \<le> 3667970790260737 / 17592186044416"
  by simp

lemma rounding_cost_7: "float64 (2589129981086925 / 2199023255552 + 4517673376206029 / 35184372088832) = (1435742283549901 / 1099511627776 :: rat)"
  by code_simp

lemma rounding_left_7: "float64 (5298766436578101 / 35184372088832 - 4517673376206029 / 35184372088832) = (97636632546509 / 4398046511104 :: rat)"
  by code_simp

lemma rounding_fits_7: "(4517673376206029 / 35184372088832 :: rat) \<le> 5298766436578101 / 35184372088832"
  by simp

lemma rounding_cost_8: "float64 (1435742283549901 / 1099511627776 + 6248744482976563 / 281474976710656) = (5840605766746113 / 4398046511104 :: rat)"
  by code_simp

lemma rounding_left_8: "float64 (97636632546509 / 4398046511104 - 6248744482976563 / 281474976710656) = (13 / 281474976710656 :: rat)"
  by code_simp

lemma rounding_fits_8: "(6248744482976563 / 281474976710656 :: rat) \<le> 97636632546509 / 4398046511104"
  by simp

lemma rounding_remaining: "float64 (1328 - 5840605766746113 / 4398046511104) = (- (1 / 4398046511104) :: rat)"
  by code_simp

lemma rounding_tier_loop:
  "\<exists>cb. tier_loop float64 i rounding_parts [] 0 1328 = Some (cb, 5840605766746113 / 4398046511104)"
  unfolding rounding_parts_def
  apply (simp only: tier_loop_single part.select_convs if_True tier_loop.simps(1)
      rounding_cost_1 rounding_left_1 rounding_fits_1 rounding_cost_2 rounding_left_2
      rounding_fits_2 rounding_cost_3 rounding_left_3 rounding_fits_3 rounding_cost_4
      rounding_left_4 rounding_fits_4 rounding_cost_5 rounding_left_5 rounding_fits_5
      rounding_cost_6 rounding_left_6 rounding_fits_6 rounding_cost_7 rounding_left_7
      rounding_fits_7 rounding_cost_8 rounding_left_8 rounding_fits_8)
  apply blast
  done

lemma rounding_prices_are_floats:
  "map (\<lambda>kv. map price (snd kv)) rounding_parts
     = map (\<lambda>d. [float64 d])
         [1343 / 10, 5749 / 10, 2707 / 10, 361 / 10, 1035 / 10, 579 / 10, 1284 / 10, 222 / 10]"
  by code_simp

lemma rounding_tier_build:
  "map (\<lambda>b. (cost b, remaining b)) (tier_build float64 rounding_backend 1328 i)
     = [(5840605766746113 / 4398046511104, - (1 / 4398046511104))]"
proof -
  have pd: "parts_data rounding_backend = rounding_parts"
    by (simp add: rounding_backend_def)
  from rounding_tier_loop [of i] obtain cb where
    "tier_loop float64 i rounding_parts [] 0 1328 = Some (cb, 5840605766746113 / 4398046511104)"
    by blast
  then have "tier_build float64 rounding_backend 1328 i
      = [\<lparr>parts = cb, cost = 5840605766746113 / 4398046511104,
          remaining = float64 (1328 - 5840605766746113 / 4398046511104),
          build_type = build_types ! i\<rparr>]"
    by (simp only: tier_build_def pd option.case prod.case)
  then show ?thesis
    by (simp only: rounding_remaining list.map build.select_convs)
qed

lemma rounding_tables_loaded:
  "list_all (\<lambda>part_type. part_type \<in> fst ` set (parts_data rounding_backend))
     (PART_FILES rounding_backend)"
  by code_simp

text \<open>
  Claim C1, on the code. The claim says that every returned build costs at most the
  budget. The docstring of the function ("all within the given budget") and the
  test \<open>test_budget_logic\<close> (\<open>assertLessEqual(first_build_cost, target_budget)\<close>)
  say the same, and in exact arithmetic it holds
  (\<open>tiered_within_budget_in_exact_arithmetic\<close>). In float arithmetic it does not: the
  filter compares each price with the rounded \<open>temp_budget\<close>, the cost is a separate
  rounded sum, and the two drift apart. On the catalogue \<open>rounding_parts\<close>, whose
  prices in the CSV file add up to 1328, with the budget 1328, every filter lets
  its row through, and each of the three builds has the cost \<open>1328 + 2^-42\<close>
  (printed 1328.0000000000002), above the budget, and a negative \<open>remaining\<close>.
\<close>

theorem tiered_cost_exceeds_budget_by_rounding:
  "(1343 + 5749 + 2707 + 361 + 1035 + 579 + 1284 + 222) / 10 = (1328 :: rat) \<and>
   map (\<lambda>kv. map price (snd kv)) rounding_parts
     = map (\<lambda>d. [float64 d])
         [1343 / 10, 5749 / 10, 2707 / 10, 361 / 10, 1035 / 10, 579 / 10, 1284 / 10, 222 / 10] \<and>
   float64 1328 = 1328 \<and>
   map cost (recommend_builds_rule_based float64 rounding_backend 1328)
     = [1328 + 1 / 2 ^ 42, 1328 + 1 / 2 ^ 42, 1328 + 1 / 2 ^ 42] \<and>
   list_all (\<lambda>b. 1328 < cost b) (recommend_builds_rule_based float64 rounding_backend 1328) \<and>
   map remaining (recommend_builds_rule_based float64 rounding_backend 1328)
     = [- (1 / 2 ^ 42), - (1 / 2 ^ 42), - (1 / 2 ^ 42)]"
proof -
  let ?r = "recommend_builds_rule_based float64 rounding_backend 1328"
  have b: "float64 1328 = 1328" by code_simp
  have "?r = tier_build float64 rounding_backend 1328 0 @ tier_build float64 rounding_backend 1328 1
               @ tier_build float64 rounding_backend 1328 2"
    using rounding_tables_loaded by (simp add: recommend_builds_rule_based_def)
  then have "map (\<lambda>b. (cost b, remaining b)) ?r
      = [(5840605766746113 / 4398046511104, - (1 / 4398046511104)),
         (5840605766746113 / 4398046511104, - (1 / 4398046511104)),
         (5840605766746113 / 4398046511104, - (1 / 4398046511104))]"
    by (simp only: map_append rounding_tier_build append.simps)
  then have "map fst (map (\<lambda>b. (cost b, remaining b)) ?r)
      = [1328 + 1 / 2 ^ 42, 1328 + 1 / 2 ^ 42, 1328 + 1 / 2 ^ 42]"
    and "map snd (map (\<lambda>b. (cost b, remaining b)) ?r)
      = [- (1 / 2 ^ 42), - (1 / 2 ^ 42), - (1 / 2 ^ 42)]"
    by simp_all
  then have c: "map cost ?r = [1328 + 1 / 2 ^ 42, 1328 + 1 / 2 ^ 42, 1328 + 1 / 2 ^ 42]"
    and r: "map remaining ?r = [- (1 / 2 ^ 42), - (1 / 2 ^ 42), - (1 / 2 ^ 42)]"
    by (simp_all add: comp_def)
  from c have "list_all (\<lambda>x. 1328 < x) (map cost ?r)" by simp
  then have g: "list_all (\<lambda>b. 1328 < cost b) ?r" by (simp add: list_all_iff)
  from rounding_prices_are_floats b c g r show ?thesis by simp
qed

section \<open>Properties of the scenario assembler\<close>

lemma set_take1_sort_subset: "set (take 1 (sort_by_price xs)) \<subseteq> set xs"
proof -
  have "set (take 1 (sort_by_price xs)) \<subseteq> set (sort_by_price xs)"
    by (rule set_take_subset)
  then show ?thesis by (simp add: sort_by_price_def)
qed

lemma socket_eq_iff: "socket_eq a b \<longleftrightarrow> a = b \<and> b \<noteq> None"
  by (cases a; cases b) auto

lemma motherboard_candidates_socket:
  assumes "motherboard_candidates motherboard_df cpu_socket remaining_budget = Some c"
      and "m \<in> set c"
  shows "m \<in> set motherboard_df \<and> socket_eq (socket m) cpu_socket"
proof -
  let ?A = "filter (\<lambda>m. socket_eq (socket m) cpu_socket
                         \<and> price m \<le> remaining_budget * (25/100)) motherboard_df"
  let ?B = "filter (\<lambda>m. socket_eq (socket m) cpu_socket
                         \<and> price m \<le> remaining_budget * (4/10)) motherboard_df"
  let ?C = "take 1 (sort_by_price (filter (\<lambda>m. socket_eq (socket m) cpu_socket) motherboard_df))"
  from assms(1) have "c = ?A \<or> c = ?B \<or> c = ?C"
    unfolding motherboard_candidates_def Let_def by (auto split: if_splits)
  moreover have "set ?C \<subseteq> set (filter (\<lambda>m. socket_eq (socket m) cpu_socket) motherboard_df)"
    by (rule set_take1_sort_subset)
  ultimately show ?thesis using assms(2) by auto
qed

lemma remaining_parts_loop_keeps:
  "remaining_parts_loop self w al budget pts rb c r = Some rb' \<Longrightarrow> k \<notin> set pts \<Longrightarrow>
     map_of rb' k = map_of rb k"
proof (induction pts arbitrary: rb c r)
  case Nil
  then show ?case by simp
next
  case (Cons pt rest)
  from Cons.prems(1) obtain sel where
    rec: "remaining_parts_loop self w al budget rest (AList.update pt sel rb)
            (c + price sel) (budget - (c + price sel)) = Some rb'"
    by (auto split: option.splits if_splits)
  from Cons.prems(2) have "k \<notin> set rest" "k \<noteq> pt" by auto
  with Cons.IH [OF rec] show ?case by (simp add: update_conv')
qed

lemma smart_stages:
  assumes "generate_smart_recommendation_rule_based self scenario budget = Some b"
  obtains cpu_df motherboard_df selected_cpu compatible selected_motherboard where
    "select_best_part_by_score (cpu_candidates cpu_df budget)
        (dict_get (dict_get feature_weights scenario general_use_weights) ''CPU'' [])
        (normalization_ranges self) ''CPU'' = Some selected_cpu"
    "motherboard_candidates motherboard_df (socket selected_cpu)
        (budget - price selected_cpu) = Some compatible"
    "select_best_part_by_score compatible
        (dict_get (dict_get feature_weights scenario general_use_weights) ''Motherboard'' [])
        (normalization_ranges self) ''Motherboard'' = Some selected_motherboard"
    "remaining_parts_loop self (dict_get feature_weights scenario general_use_weights)
        (dict_get budget_allocation_priority scenario general_use_allocations)
        budget part_types_order
        (AList.update ''Motherboard'' selected_motherboard (AList.update ''CPU'' selected_cpu []))
        (price selected_cpu + price selected_motherboard)
        (budget - (price selected_cpu + price selected_motherboard)) = Some b"
  using assms
  unfolding generate_smart_recommendation_rule_based_def Let_def
  by (auto split: option.splits if_splits)

lemma smart_cpu_motherboard_sockets:
  assumes "generate_smart_recommendation_rule_based self scenario budget = Some b"
  shows "\<exists>cpu mb. map_of b ''CPU'' = Some cpu \<and> map_of b ''Motherboard'' = Some mb \<and>
           socket mb = socket cpu \<and> socket cpu \<noteq> None"
proof -
  let ?w = "dict_get feature_weights scenario general_use_weights"
  let ?al = "dict_get budget_allocation_priority scenario general_use_allocations"
  from assms obtain cpu_df motherboard_df selected_cpu compatible selected_motherboard where
    cand: "motherboard_candidates motherboard_df (socket selected_cpu)
            (budget - price selected_cpu) = Some compatible"
    and mb: "select_best_part_by_score compatible (dict_get ?w ''Motherboard'' [])
            (normalization_ranges self) ''Motherboard'' = Some selected_motherboard"
    and loop: "remaining_parts_loop self ?w ?al budget part_types_order
            (AList.update ''Motherboard'' selected_motherboard (AList.update ''CPU'' selected_cpu []))
            (price selected_cpu + price selected_motherboard)
            (budget - (price selected_cpu + price selected_motherboard)) = Some b"
    by (rule smart_stages)
  from select_best_Some_mem [OF mb] obtain m s
    where m: "m \<in> set compatible" and sm: "selected_motherboard = with_score m s" by blast
  from motherboard_candidates_socket [OF cand m]
  have "socket_eq (socket m) (socket selected_cpu)" by simp
  then have eq: "socket selected_motherboard = socket selected_cpu" "socket selected_cpu \<noteq> None"
    using sm by (simp_all add: socket_eq_iff)
  have "map_of b ''CPU'' = Some selected_cpu"
    using remaining_parts_loop_keeps [OF loop, of "''CPU''"]
    by (simp add: part_types_order_def update_conv')
  moreover have "map_of b ''Motherboard'' = Some selected_motherboard"
    using remaining_parts_loop_keeps [OF loop, of "''Motherboard''"]
    by (simp add: part_types_order_def update_conv')
  ultimately show ?thesis using eq by blast
qed

text \<open>
  Claim C2. When the scenario assembler returns a build, the build holds a CPU and a
  motherboard whose socket cells are equal (and not empty). Every motherboard
  candidate frame that the assembler forms (the first filter, the wider retry, the
  cheapest compatible motherboard) holds only rows of the motherboard table whose
  socket matches the socket of the chosen CPU.
\<close>

theorem smart_sockets_match:
  "(generate_smart_recommendation_rule_based self scenario budget = Some b \<longrightarrow>
      (\<exists>cpu mb. map_of b ''CPU'' = Some cpu \<and> map_of b ''Motherboard'' = Some mb \<and>
                 socket mb = socket cpu \<and> socket cpu \<noteq> None)) \<and>
   (motherboard_candidates motherboard_df cpu_socket remaining_budget = Some c \<longrightarrow>
      list_all (\<lambda>m. socket m = cpu_socket \<and> cpu_socket \<noteq> None) c)"
proof (intro conjI impI)
  assume "generate_smart_recommendation_rule_based self scenario budget = Some b"
  then show "\<exists>cpu mb. map_of b ''CPU'' = Some cpu \<and> map_of b ''Motherboard'' = Some mb \<and>
                 socket mb = socket cpu \<and> socket cpu \<noteq> None"
    by (rule smart_cpu_motherboard_sockets)
next
  assume "motherboard_candidates motherboard_df cpu_socket remaining_budget = Some c"
  from motherboard_candidates_socket [OF this]
  show "list_all (\<lambda>m. socket m = cpu_socket \<and> cpu_socket \<noteq> None) c"
    by (auto simp: list_all_iff socket_eq_iff)
qed

theorem smart_sockets_match_witness:
  "(\<exists>b. generate_smart_recommendation_rule_based demo_backend ''Gaming'' 1000 = Some b \<and>
        (\<exists>cpu mb. map_of b ''CPU'' = Some cpu \<and> map_of b ''Motherboard'' = Some mb \<and>
                   socket mb = socket cpu \<and> socket cpu \<noteq> None)) \<and>
   motherboard_candidates demo_motherboards (Some ''AM4'') 50 = Some [hd demo_motherboards] \<and>
   list_all (\<lambda>m. socket m = Some ''AM4'' \<and> Some ''AM4'' \<noteq> (None :: string option))
     [hd demo_motherboards]"
proof -
  have "generate_smart_recommendation_rule_based demo_backend ''Gaming'' 1000 \<noteq> None"
    by code_simp
  then obtain b where b: "generate_smart_recommendation_rule_based demo_backend ''Gaming'' 1000 = Some b"
    by auto
  have c: "motherboard_candidates demo_motherboards (Some ''AM4'') 50 = Some [hd demo_motherboards]"
    by code_simp
  note t = smart_sockets_match [of demo_backend "''Gaming''" 1000 b demo_motherboards
             "Some ''AM4''" 50 "[hd demo_motherboards]"]
  from t b c show ?thesis by blast
qed

subsection \<open>The last resort of the remaining categories\<close>

lemma affordable_or_cheapest_mem:
  assumes "affordable_or_cheapest df a r = Some (aff, ch)" and "p \<in> set aff"
  shows "p \<in> set df \<and> (price p \<le> a \<or> price p \<le> r)"
proof -
  from assms(1)
  have "aff = filter (\<lambda>p. price p \<le> a) df \<or> aff = filter (\<lambda>p. price p \<le> r) df"
    unfolding affordable_or_cheapest_def Let_def
    by (auto split: if_splits list.splits)
  with assms(2) show ?thesis by auto
qed

text \<open>
  Claim C3, on the code. When a remaining category has rows, none of them fits the
  allocated share and none fits the whole remaining budget, the source stores the
  cheapest row in \<open>selected_part\<close> (line 362) and then, \<open>affordable_parts\<close> being
  still empty, leaves through the \<open>return None\<close> of line 378: the stored row is never
  added to the build and the assembly fails.
\<close>

theorem smart_last_resort_discarded:
  assumes "map_of (parts_data self) part_type = Some df" and "df \<noteq> []"
      and "filter (\<lambda>p. price p \<le> remaining_budget * dict_get al part_type (1/10)) df = []"
      and "filter (\<lambda>p. price p \<le> remaining_budget) df = []"
  shows "affordable_or_cheapest df (remaining_budget * dict_get al part_type (1/10))
           remaining_budget = Some ([], Some (hd df)) \<and>
         remaining_parts_loop self w al budget (part_type # rest) recommended_build
           current_cost remaining_budget = None"
  using assms by (cases df) (simp_all add: affordable_or_cheapest_def)

theorem smart_last_resort_discarded_witness:
  "map_of (parts_data demo_backend) ''PSU'' = Some demo_psus \<and> demo_psus \<noteq> [] \<and>
   filter (\<lambda>p. price p \<le> 0 * dict_get (dict_get budget_allocation_priority ''Gaming''
                                          general_use_allocations) ''PSU'' (1/10)) demo_psus = [] \<and>
   filter (\<lambda>p. price p \<le> 0) demo_psus = [] \<and>
   affordable_or_cheapest demo_psus
     (0 * dict_get (dict_get budget_allocation_priority ''Gaming'' general_use_allocations)
            ''PSU'' (1/10)) 0 = Some ([], Some (hd demo_psus)) \<and>
   remaining_parts_loop demo_backend (dict_get feature_weights ''Gaming'' general_use_weights)
     (dict_get budget_allocation_priority ''Gaming'' general_use_allocations) 400
     [''PSU'', ''Case'', ''Cooler''] [] 400 0 = None"
proof -
  have h1: "map_of (parts_data demo_backend) ''PSU'' = Some demo_psus"
    by (simp add: demo_backend_def demo_parts_def)
  have h2: "demo_psus \<noteq> []" by (simp add: demo_psus_def)
  have h3: "filter (\<lambda>p. price p \<le> 0 * dict_get (dict_get budget_allocation_priority ''Gaming''
                                          general_use_allocations) ''PSU'' (1/10)) demo_psus = []"
    by (simp add: demo_psus_def)
  have h4: "filter (\<lambda>p. price p \<le> 0) demo_psus = []" by (simp add: demo_psus_def)
  from smart_last_resort_discarded [OF h1 h2 h3 h4] h1 h2 h3 h4 show ?thesis by blast
qed

text \<open>
  The whole assembler on the sample catalogue with the scenario \<open>Gaming\<close> and the
  budget 400: CPU 100, motherboard 80, GPU 150, RAM 30 and storage 40 use up the
  budget; the cheapest power supply costs 50, and the call returns \<open>None\<close>.
\<close>

lemma smart_last_resort_fails_at_400:
  "generate_smart_recommendation_rule_based demo_backend ''Gaming'' 400 = None"
  by code_simp

subsection \<open>A returned build over the budget\<close>

text \<open>
  Claim C10. On the catalogue \<open>credit_parts\<close> with the budget 100 and the scenario
  \<open>Gaming\<close>: no CPU costs at most \<open>100 * 0.4\<close>, so the cheapest CPU overall (50) is
  taken; the remaining budget is 50, no matching motherboard costs at most
  \<open>50 * 0.4\<close>, so the cheapest matching motherboard (100) is taken, and the running
  cost is 150. The rows of the remaining categories have negative prices, which fit
  the negative shares of the negative remaining budget; no step tests the total
  against the budget, and the assembler returns a build that costs 108.
\<close>

theorem smart_fallbacks_exceed_budget:
  "(0::rat) < 100 \<and>
   filter (\<lambda>p. price p \<le> 100 * (4/10)) credit_cpus = [] \<and>
   cpu_candidates credit_cpus 100 = take 1 (sort_by_price credit_cpus) \<and>
   map price (cpu_candidates credit_cpus 100) = [50] \<and>
   filter (\<lambda>m. socket_eq (socket m) (Some ''AM4'') \<and> price m \<le> (100 - 50) * (4/10))
     credit_motherboards = [] \<and>
   map_option (map price) (motherboard_candidates credit_motherboards (Some ''AM4'') (100 - 50))
     = Some [100] \<and>
   (\<exists>b. generate_smart_recommendation_rule_based credit_backend ''Gaming'' 100 = Some b \<and>
        map (\<lambda>kv. price (snd kv)) b = [50, 100, - 30, - 5, - 3, - 2, - 1, - 1] \<and>
        build_cost b = 108 \<and> 100 < build_cost b) \<and>
   (\<exists>self scenario budget b.
        0 < budget \<and> generate_smart_recommendation_rule_based self scenario budget = Some b \<and>
        budget < build_cost b)"
proof -
  let ?r = "generate_smart_recommendation_rule_based credit_backend ''Gaming'' 100"
  have ne: "?r \<noteq> None" by code_simp
  then obtain b where b: "?r = Some b" by auto
  have "map (\<lambda>kv. price (snd kv)) (the ?r) = [50, 100, - 30, - 5, - 3, - 2, - 1, - 1]"
    by code_simp
  with b have p: "map (\<lambda>kv. price (snd kv)) b = [50, 100, - 30, - 5, - 3, - 2, - 1, - 1]"
    by simp
  then have c: "build_cost b = 108" by (simp add: build_cost_def)
  have 1: "filter (\<lambda>p. price p \<le> 100 * (4/10)) credit_cpus = []" by code_simp
  have 2: "cpu_candidates credit_cpus 100 = take 1 (sort_by_price credit_cpus)" by code_simp
  have 3: "map price (cpu_candidates credit_cpus 100) = [50]" by code_simp
  have 4: "filter (\<lambda>m. socket_eq (socket m) (Some ''AM4'') \<and> price m \<le> (100 - 50) * (4/10))
             credit_motherboards = []" by code_simp
  have 5: "map_option (map price)
             (motherboard_candidates credit_motherboards (Some ''AM4'') (100 - 50)) = Some [100]"
    by code_simp
  have 6: "\<exists>b. ?r = Some b \<and>
        map (\<lambda>kv. price (snd kv)) b = [50, 100, - 30, - 5, - 3, - 2, - 1, - 1] \<and>
        build_cost b = 108 \<and> 100 < build_cost b"
    using b p c by simp
  have 7: "\<exists>self scenario budget b.
        0 < budget \<and> generate_smart_recommendation_rule_based self scenario budget = Some b \<and>
        budget < build_cost b"
  proof (intro exI conjI)
    show "(0::rat) < 100" by simp
    show "?r = Some b" by (rule b)
    show "100 < build_cost b" using c by simp
  qed
  from 1 2 3 4 5 6 7 show ?thesis by simp
qed

subsection \<open>Bookkeeping of a build under construction\<close>

lemma nonneg_pricesD:
  "nonneg_prices self \<Longrightarrow> map_of (parts_data self) k = Some df \<Longrightarrow> p \<in> set df \<Longrightarrow> 0 \<le> price p"
  by (auto simp: nonneg_prices_def list_all_iff dest!: map_of_SomeD)

lemma update_fresh: "k \<notin> fst ` set al \<Longrightarrow> AList.update k v al = al @ [(k, v)]"
  by (induction al) auto

lemma build_cost_update:
  "k \<notin> fst ` set al \<Longrightarrow> build_cost (AList.update k v al) = build_cost al + price v"
  by (simp add: update_fresh build_cost_def)

lemma keys_update: "fst ` set (AList.update k v al) = insert k (fst ` set al)"
  using dom_update [of k v al] by (simp add: dom_map_of_conv_image_fst)

section \<open>Properties of the sampling assembler\<close>

lemma sample1_mem: "sample1 df r = Some p \<Longrightarrow> p \<in> set df"
  by (auto simp: sample1_def split: if_splits)

lemma sample_remaining_step:
  assumes "sample_remaining self draw k (pt # rest) b c t = Some r"
  obtains df p where
    "map_of (parts_data self) pt = Some df" "p \<in> set df"
    "sample_remaining self draw (Suc k) rest (AList.update pt p b) (c + price p) (t - price p)
       = Some r"
proof -
  from assms obtain df where df: "map_of (parts_data self) pt = Some df" and ne: "df \<noteq> []"
    by (auto split: option.splits if_splits)
  let ?aff = "filter (\<lambda>p. price p \<le> t) df"
  let ?pick = "if ?aff = [] then (case df of [] \<Rightarrow> None | p # _ \<Rightarrow> Some p)
               else sample1 ?aff (draw k)"
  from assms df ne obtain p where pick: "?pick = Some p"
    and rec: "sample_remaining self draw (Suc k) rest (AList.update pt p b) (c + price p)
                (t - price p) = Some r"
    by (auto simp: Let_def split: option.splits)
  have "p \<in> set df"
  proof (cases "?aff = []")
    case True
    with pick ne show ?thesis by (cases df) auto
  next
    case False
    with pick have "sample1 ?aff (draw k) = Some p" by simp
    from sample1_mem [OF this] show ?thesis by simp
  qed
  with df rec that show ?thesis by blast
qed

lemma sample_remaining_inv:
  assumes "sample_remaining self draw k pts b c t = Some (b', c')"
      and "distinct pts" and "set pts \<inter> fst ` set b = {}" and "build_cost b = c"
  shows "build_cost b' = c' \<and> fst ` set b' = fst ` set b \<union> set pts"
  using assms
proof (induction pts arbitrary: k b c t)
  case Nil
  then show ?case by simp
next
  case (Cons pt rest)
  from Cons.prems(1) obtain df p where
    rec: "sample_remaining self draw (Suc k) rest (AList.update pt p b) (c + price p)
            (t - price p) = Some (b', c')"
    by (rule sample_remaining_step)
  have fresh: "pt \<notin> fst ` set b" using Cons.prems(3) by auto
  have 1: "build_cost (AList.update pt p b) = c + price p"
    using fresh Cons.prems(4) by (simp add: build_cost_update)
  have 2: "set rest \<inter> fst ` set (AList.update pt p b) = {}"
    using Cons.prems(2,3) by (auto simp: keys_update)
  have 3: "distinct rest" using Cons.prems(2) by simp
  from Cons.IH [OF rec 3 2 1] show ?case by (auto simp: keys_update)
qed

lemma sample_remaining_mono:
  assumes "sample_remaining self draw k pts b c t = Some (b', c')"
      and "nonneg_prices self"
  shows "c \<le> c'"
  using assms(1)
proof (induction pts arbitrary: k b c t)
  case Nil
  then show ?case by simp
next
  case (Cons pt rest)
  from Cons.prems obtain df p where
    df: "map_of (parts_data self) pt = Some df" and p: "p \<in> set df" and
    rec: "sample_remaining self draw (Suc k) rest (AList.update pt p b) (c + price p)
            (t - price p) = Some (b', c')"
    by (rule sample_remaining_step)
  from nonneg_pricesD [OF assms(2) df p] Cons.IH [OF rec] show ?case by simp
qed

lemma sample_build_step:
  assumes "sample_build self budget draw = Some r"
  obtains cpu_df motherboard_df cpu mb where
    "map_of (parts_data self) ''CPU'' = Some cpu_df" "cpu \<in> set cpu_df"
    "map_of (parts_data self) ''Motherboard'' = Some motherboard_df" "mb \<in> set motherboard_df"
    "socket_eq (socket mb) (socket cpu)"
    "sample_remaining self draw 2 remaining_part_types
        (AList.update ''Motherboard'' mb (AList.update ''CPU'' cpu []))
        (price cpu + price mb) (budget - price cpu - price mb) = Some r"
proof -
  from assms obtain cpu_df where cdf: "map_of (parts_data self) ''CPU'' = Some cpu_df"
    unfolding sample_build_def by (auto split: option.splits)
  let ?A = "filter (\<lambda>p. price p \<le> budget * (4/10)) cpu_df"
  let ?cands = "if ?A = [] then take 1 (sort_by_price cpu_df) else ?A"
  from assms cdf obtain cpu where cpu: "sample1 ?cands (draw 0) = Some cpu"
    unfolding sample_build_def Let_def by (auto split: option.splits if_splits)
  have "set ?cands \<subseteq> set cpu_df" using set_take1_sort_subset [of cpu_df] by auto
  with sample1_mem [OF cpu] have cmem: "cpu \<in> set cpu_df" by blast
  from assms cdf cpu obtain motherboard_df where
    mdf: "map_of (parts_data self) ''Motherboard'' = Some motherboard_df"
    unfolding sample_build_def Let_def by (auto split: option.splits if_splits)
  let ?B = "filter (\<lambda>m. socket_eq (socket m) (socket cpu)
                         \<and> price m \<le> (budget - price cpu) * (5/10)) motherboard_df"
  let ?C = "filter (\<lambda>m. socket_eq (socket m) (socket cpu)) motherboard_df"
  let ?mcands = "if ?B = [] then take 1 (sort_by_price ?C) else ?B"
  from assms cdf cpu mdf obtain mb where mb: "sample1 ?mcands (draw 1) = Some mb"
    and rec: "sample_remaining self draw 2 remaining_part_types
        (AList.update ''Motherboard'' mb (AList.update ''CPU'' cpu []))
        (price cpu + price mb) (budget - price cpu - price mb) = Some r"
    unfolding sample_build_def Let_def by (auto split: option.splits if_splits)
  have "set ?mcands \<subseteq> set ?C" using set_take1_sort_subset [of ?C] by auto
  with sample1_mem [OF mb] have "mb \<in> set ?C" by blast
  then have "socket_eq (socket mb) (socket cpu)" "mb \<in> set motherboard_df" by auto
  with cdf cmem rec mdf that show ?thesis by blast
qed

lemma sample_build_inv:
  assumes "sample_build self budget draw = Some (b, c)"
  shows "build_cost b = c \<and>
         fst ` set b = set (''CPU'' # ''Motherboard'' # remaining_part_types)"
proof -
  from assms obtain cpu mb where
    rec: "sample_remaining self draw 2 remaining_part_types
        (AList.update ''Motherboard'' mb (AList.update ''CPU'' cpu []))
        (price cpu + price mb) (budget - price cpu - price mb) = Some (b, c)"
    by (rule sample_build_step)
  have "build_cost b = c \<and> fst ` set b =
          fst ` set (AList.update ''Motherboard'' mb (AList.update ''CPU'' cpu []))
          \<union> set remaining_part_types"
    by (rule sample_remaining_inv [OF rec]) (simp_all add: remaining_part_types_def build_cost_def)
  then show ?thesis
    by (auto simp: remaining_part_types_def)
qed

lemma predict_build_score_nonneg: "predict_build_score self b scenario = Some s \<Longrightarrow> 0 \<le> s"
  by (auto simp: predict_build_score_def split: option.splits if_splits)

lemma ml_loop_mem:
  assumes "x \<in> set (ml_loop self budget scenario rng is acc)"
  shows "x \<in> set acc \<or>
         (\<exists>i \<in> set is. \<exists>c. sample_build self budget (rng i) = Some (sampled_parts x, c)
            \<and> c \<le> budget
            \<and> predict_build_score self (sampled_parts x) scenario = Some (ml_score x))"
  using assms
proof (induction "is" arbitrary: acc)
  case Nil
  then show ?case by simp
next
  case (Cons i rest)
  let ?acc' = "case sample_build self budget (rng i) of
          None \<Rightarrow> acc
        | Some (current_sampled_build, current_total_cost) \<Rightarrow>
            if current_total_cost \<le> budget then
              (case predict_build_score self current_sampled_build scenario of
                 None \<Rightarrow> acc
               | Some predicted_score \<Rightarrow>
                   acc @ [\<lparr>sampled_parts = current_sampled_build, ml_score = predicted_score\<rparr>])
            else acc"
  from Cons.prems have "x \<in> set (ml_loop self budget scenario rng rest ?acc')" by simp
  from Cons.IH [OF this] show ?case
  proof
    assume "x \<in> set ?acc'"
    then have "x \<in> set acc \<or>
        (\<exists>c. sample_build self budget (rng i) = Some (sampled_parts x, c) \<and> c \<le> budget
            \<and> predict_build_score self (sampled_parts x) scenario = Some (ml_score x))"
      by (auto split: option.splits if_splits)
    then show ?thesis by auto
  next
    assume "\<exists>i \<in> set rest. \<exists>c. sample_build self budget (rng i) = Some (sampled_parts x, c)
            \<and> c \<le> budget
            \<and> predict_build_score self (sampled_parts x) scenario = Some (ml_score x)"
    then show ?thesis by auto
  qed
qed

lemma set_slice_to: "set (slice_to xs n) \<subseteq> set xs"
  by (auto simp: slice_to_def dest: in_set_takeD)

lemma generate_ml_mem:
  assumes "x \<in> set (generate_ml_based_recommendations self budget scenario num_samples top_n rng)"
  shows "\<exists>i < nat num_samples. \<exists>c.
            sample_build self budget (rng i) = Some (sampled_parts x, c) \<and> c \<le> budget
            \<and> predict_build_score self (sampled_parts x) scenario = Some (ml_score x)"
proof -
  from assms have "x \<in> set (slice_to (sort_by_score_desc
        (ml_loop self budget scenario rng [0..<nat num_samples] [])) top_n)"
    by (auto simp: generate_ml_based_recommendations_def split: if_splits)
  with set_slice_to have "x \<in> set (ml_loop self budget scenario rng [0..<nat num_samples] [])"
    by (fastforce simp: sort_by_score_desc_def)
  from ml_loop_mem [OF this] show ?thesis by auto
qed

text \<open>
  Claim C6. A build is in the list that the sampling assembler returns only if one
  of the trials filled every category, ended with a total cost of at most the budget
  and was given a score by \<open>predict_build_score\<close>, which clamps a negative
  prediction to 0. So every returned build has all eight parts, costs at most the
  budget and has a score that is not negative.
\<close>

theorem ml_builds_within_budget_and_scored:
  assumes "x \<in> set (generate_ml_based_recommendations self budget scenario num_samples top_n rng)"
  shows "build_cost (sampled_parts x) \<le> budget \<and> 0 \<le> ml_score x \<and>
         fst ` set (sampled_parts x) = set (''CPU'' # ''Motherboard'' # remaining_part_types) \<and>
         (\<exists>i < nat num_samples.
            sample_build self budget (rng i)
              = Some (sampled_parts x, build_cost (sampled_parts x)) \<and>
            predict_build_score self (sampled_parts x) scenario = Some (ml_score x))"
proof -
  from generate_ml_mem [OF assms] obtain i c where
    i: "i < nat num_samples"
    and sb: "sample_build self budget (rng i) = Some (sampled_parts x, c)" and c: "c \<le> budget"
    and pr: "predict_build_score self (sampled_parts x) scenario = Some (ml_score x)" by blast
  from sample_build_inv [OF sb] have inv: "build_cost (sampled_parts x) = c"
    "fst ` set (sampled_parts x) = set (''CPU'' # ''Motherboard'' # remaining_part_types)"
    by simp_all
  with sb have "sample_build self budget (rng i)
                  = Some (sampled_parts x, build_cost (sampled_parts x))" by simp
  with i pr inv c predict_build_score_nonneg [OF pr] show ?thesis by blast
qed

theorem ml_builds_within_budget_and_scored_witness:
  "length (generate_ml_based_recommendations demo_backend 2000 ''Gaming'' 4 3 demo_rng) = 3 \<and>
   build_cost (sampled_parts
      (generate_ml_based_recommendations demo_backend 2000 ''Gaming'' 4 3 demo_rng ! 2)) = 660 \<and>
   build_cost (sampled_parts
      (generate_ml_based_recommendations demo_backend 2000 ''Gaming'' 4 3 demo_rng ! 2)) \<le> 2000 \<and>
   ml_score (generate_ml_based_recommendations demo_backend 2000 ''Gaming'' 4 3 demo_rng ! 2) = 0 \<and>
   0 \<le> ml_score (generate_ml_based_recommendations demo_backend 2000 ''Gaming'' 4 3 demo_rng ! 2)"
proof -
  let ?r = "generate_ml_based_recommendations demo_backend 2000 ''Gaming'' 4 3 demo_rng"
  have len: "length ?r = 3" by code_simp
  have c: "build_cost (sampled_parts (?r ! 2)) = 660" by code_simp
  have s: "ml_score (?r ! 2) = 0" by code_simp
  from len have mem: "?r ! 2 \<in> set ?r" by simp
  from ml_builds_within_budget_and_scored [OF mem] len c s show ?thesis by simp
qed

lemma sorted_by_score_desc:
  "sorted_wrt (\<lambda>a b. ml_score b \<le> ml_score a) (sort_by_score_desc bs)"
proof -
  have "sorted (map (\<lambda>b. - ml_score b) (sort_key (\<lambda>b. - ml_score b) bs))"
    by (rule sorted_sort_key)
  then show ?thesis by (simp add: sort_by_score_desc_def sorted_map)
qed

lemma sorted_wrt_slice_to: "sorted_wrt P xs \<Longrightarrow> sorted_wrt P (slice_to xs n)"
  by (simp add: slice_to_def sorted_wrt_take)

text \<open>
  Claim C4. For every budget, scenario, number of samples and count \<open>n\<close> passed as
  \<open>top_n\<close>, the returned list is sorted by score, highest first, and has at most
  \<open>n\<close> builds.
\<close>

theorem ml_sorted_and_at_most_top_n:
  "sorted_wrt (\<lambda>a b. ml_score b \<le> ml_score a)
     (generate_ml_based_recommendations self budget scenario num_samples (int n) rng) \<and>
   length (generate_ml_based_recommendations self budget scenario num_samples (int n) rng) \<le> n"
  by (auto simp: generate_ml_based_recommendations_def sorted_by_score_desc sorted_wrt_slice_to
        slice_to_def)

text \<open>
  Claim C9. With \<open>num_samples = 0\<close> the loop body never runs, and the assembler
  returns the empty list, for every budget, scenario, \<open>top_n\<close> and catalogue, with or
  without a model for the scenario. No exception can be raised on that path: the
  function value is the list itself.
\<close>

theorem ml_zero_samples_empty:
  "generate_ml_based_recommendations self budget scenario 0 top_n rng = []"
  by (simp add: generate_ml_based_recommendations_def slice_to_def sort_by_score_desc_def)

section \<open>A budget that is not positive\<close>

lemma positive_pricesD:
  "positive_prices self \<Longrightarrow> map_of (parts_data self) k = Some df \<Longrightarrow> p \<in> set df \<Longrightarrow> 0 < price p"
  by (auto simp: positive_prices_def list_all_iff dest!: map_of_SomeD)

lemma positive_nonneg: "positive_prices self \<Longrightarrow> nonneg_prices self"
  by (auto simp: positive_prices_def nonneg_prices_def list_all_iff intro: less_imp_le)

lemma sample_build_positive:
  assumes "sample_build self budget draw = Some (b, c)" and "positive_prices self"
  shows "0 < c"
proof -
  from assms(1) obtain cpu_df motherboard_df cpu mb where
    cdf: "map_of (parts_data self) ''CPU'' = Some cpu_df" and cpu: "cpu \<in> set cpu_df" and
    mdf: "map_of (parts_data self) ''Motherboard'' = Some motherboard_df" and
    mb: "mb \<in> set motherboard_df" and
    rec: "sample_remaining self draw 2 remaining_part_types
        (AList.update ''Motherboard'' mb (AList.update ''CPU'' cpu []))
        (price cpu + price mb) (budget - price cpu - price mb) = Some (b, c)"
    by (rule sample_build_step)
  from positive_pricesD [OF assms(2) cdf cpu] positive_pricesD [OF assms(2) mdf mb]
  have "0 < price cpu + price mb" by simp
  with sample_remaining_mono [OF rec positive_nonneg [OF assms(2)]] show ?thesis by simp
qed

lemma tiers_empty:
  assumes "positive_prices self" and "budget \<le> 0" and "PART_FILES self \<noteq> []"
  shows "recommend_builds_rule_based rnd self budget = []"
proof (cases "list_all (\<lambda>part_type. part_type \<in> fst ` set (parts_data self)) (PART_FILES self)")
  case False
  then show ?thesis by (simp add: recommend_builds_rule_based_def)
next
  case True
  with assms(3) have "parts_data self \<noteq> []" by (cases "PART_FILES self") auto
  then obtain pt df rest where pd: "parts_data self = (pt, df) # rest"
    by (cases "parts_data self") auto
  have "filter (\<lambda>p. price p \<le> budget) df = []"
    using assms(1,2) pd by (auto simp: positive_prices_def list_all_iff filter_empty_conv)
  then have "tier_loop rnd i (parts_data self) [] 0 budget = None" for i
    using pd by simp
  then show ?thesis
    by (simp add: recommend_builds_rule_based_def tier_build_def)
qed

lemma smart_none:
  assumes "positive_prices self" and "budget \<le> 0"
  shows "generate_smart_recommendation_rule_based self scenario budget = None"
proof (cases "map_of (parts_data self) ''CPU''")
  case None
  then show ?thesis by (simp add: generate_smart_recommendation_rule_based_def)
next
  case (Some cpu_df)
  have "budget * (25/100) \<le> 0" using assms(2) by (simp add: mult_le_0_iff)
  then have "filter (\<lambda>p. price p \<le> budget * (25/100)) cpu_df = []"
    using positive_pricesD [OF assms(1) Some] by (fastforce simp: filter_empty_conv)
  then have "cpu_candidates cpu_df budget = []"
    using assms(2) by (simp add: cpu_candidates_def)
  with Some show ?thesis
    by (simp add: generate_smart_recommendation_rule_based_def Let_def split: option.splits)
qed

lemma ml_empty:
  assumes "positive_prices self" and "budget \<le> 0"
  shows "generate_ml_based_recommendations self budget scenario num_samples top_n rng = []"
proof (cases "generate_ml_based_recommendations self budget scenario num_samples top_n rng")
  case Nil
  then show ?thesis .
next
  case (Cons x xs)
  then have "x \<in> set (generate_ml_based_recommendations self budget scenario num_samples top_n rng)"
    by simp
  from generate_ml_mem [OF this] obtain i c where
    sb: "sample_build self budget (rng i) = Some (sampled_parts x, c)" and c: "c \<le> budget"
    by blast
  from sample_build_positive [OF sb assms(1)] c assms(2) show ?thesis by simp
qed

text \<open>
  Claim C7, as the code has it. None of the three operations tests the budget or
  raises an error for it: each runs its ordinary assembly. Called with a budget
  that is not positive, with a category table that is not empty and a catalogue
  whose prices are all positive (its CPU and Motherboard tables carrying the socket
  column, as everywhere in this model), none of them returns a build: the tiered
  assembler returns the empty list (whatever the rounding), the scenario assembler
  \<open>None\<close>, the sampling assembler the empty list.
\<close>

theorem nonpositive_budget_returns_no_build:
  assumes "positive_prices self" and "budget \<le> 0" and "PART_FILES self \<noteq> []"
  shows "recommend_builds_rule_based rnd self budget = [] \<and>
         generate_smart_recommendation_rule_based self scenario budget = None \<and>
         generate_ml_based_recommendations self budget scenario num_samples top_n rng = []"
  using tiers_empty [OF assms] smart_none [OF assms(1,2)] ml_empty [OF assms(1,2)]
  by simp

theorem nonpositive_budget_returns_no_build_witness:
  "positive_prices demo_backend \<and> (- 5 :: rat) \<le> 0 \<and> PART_FILES demo_backend \<noteq> [] \<and>
   recommend_builds_rule_based float64 demo_backend (- 5) = [] \<and>
   generate_smart_recommendation_rule_based demo_backend ''Gaming'' (- 5) = None \<and>
   generate_ml_based_recommendations demo_backend (- 5) ''Gaming'' 4 3 demo_rng = []"
proof -
  have h1: "positive_prices demo_backend" by code_simp
  have h2: "(- 5 :: rat) \<le> 0" by simp
  have h3: "PART_FILES demo_backend \<noteq> []" by code_simp
  from nonpositive_budget_returns_no_build [OF h1 h2 h3] h1 h2 h3 show ?thesis by blast
qed

text \<open>
  With the budget 0 and a catalogue of parts that cost nothing, all three
  operations assemble and return builds: the budget was not rejected.
\<close>

theorem zero_budget_assembles_counterexample:
  "length (recommend_builds_rule_based float64 free_backend 0) = 3 \<and>
   generate_smart_recommendation_rule_based free_backend ''Gaming'' 0 \<noteq> None \<and>
   length (generate_ml_based_recommendations free_backend 0 ''Gaming'' 2 3 demo_rng) = 2"
  by code_simp

end
